theory Spec2Isabelle
  imports Complex_Main
begin

section \<open>JavaScript values used by the configurator\<close>

text \<open>
  A JavaScript object with string keys is modelled as an association list holding its own
  properties in insertion order, which is the order of \<^verbatim>\<open>Object.entries\<close> and of the
  spread \<^verbatim>\<open>{...o}\<close>. Reading a property gives \<open>None\<close> for \<^verbatim>\<open>undefined\<close>. Writing a
  property keeps the position of a key that is already there and appends a new key.
  (The engine lists keys that are canonical array indices first; the statements below
  are about lookups and key sets, never about positions.)
\<close>

type_synonym 'v obj = "(string \<times> 'v) list"

definition get_prop :: "'v obj \<Rightarrow> string \<Rightarrow> 'v option" where
  "get_prop ob k = map_of ob k"

fun set_prop :: "string \<Rightarrow> 'v \<Rightarrow> 'v obj \<Rightarrow> 'v obj" where
  "set_prop k v [] = [(k, v)]"
| "set_prop k v ((k', v') # ps) =
     (if k' = k then (k, v) # ps else (k', v') # set_prop k v ps)"

definition Object_keys :: "'v obj \<Rightarrow> string list" where
  "Object_keys ob = map fst ob"

text \<open>\<^verbatim>\<open>{...x}\<close>: the properties of \<open>x\<close>, none when \<open>x\<close> is \<^verbatim>\<open>undefined\<close>.\<close>

definition spread :: "'v obj option \<Rightarrow> 'v obj" where
  "spread u = (case u of None \<Rightarrow> [] | Some ob \<Rightarrow> ob)"

text \<open>A JavaScript number: \<open>NaN\<close> or a finite value, taken with exact arithmetic.\<close>

datatype jsnum = NaN | Num real

section \<open>Config\<close>

definition PART_KEYS :: "string list" where
  "PART_KEYS =
    [''glove_backhand'', ''glove_palm'', ''glove_web'', ''glove_laces'', ''glove_welting'',
     ''glove_binding'', ''glove_wriststrap'', ''glove_logo_patch'', ''glove_stitching'']"

type_synonym part_settings = "string obj"

definition DEFAULT_PART_SETTINGS :: part_settings where
  "DEFAULT_PART_SETTINGS =
    [(''material'', ''full_grain''), (''color'', ''#b06b4a''), (''pattern'', ''none'')]"

section \<open>Store\<close>

text \<open>
  The payload of an embroidery target, \<^verbatim>\<open>{ text, font, size, color }\<close>. A field is \<open>None\<close>
  when the property is \<^verbatim>\<open>undefined\<close>; a target itself is \<open>None\<close> when it is \<^verbatim>\<open>null\<close>.
\<close>

record payload =
  emb_text :: "string option"
  emb_font :: "string option"
  emb_size :: "jsnum option"
  emb_color :: "string option"

record embroidery_state =
  targets :: "payload option obj"

record store =
  selectedPart :: string
  parts :: "part_settings obj"
  embroidery :: embroidery_state

text \<open>
  \<^verbatim>\<open>PART_KEYS.reduce((acc, k) => { acc[k] = { ...DEFAULT_PART_SETTINGS }; return acc; }, {})\<close>,
  written twice in the store (initial state and \<^verbatim>\<open>resetDesign\<close>).
\<close>

definition default_parts :: "part_settings obj" where
  "default_parts =
     foldl (\<lambda>acc k. set_prop k (spread (Some DEFAULT_PART_SETTINGS)) acc) [] PART_KEYS"

text \<open>\<^verbatim>\<open>{ targets: { wriststrap: null, thumb: null, patch: null } }\<close>\<close>

definition default_embroidery :: embroidery_state where
  "default_embroidery =
     \<lparr>targets = [(''wriststrap'', None), (''thumb'', None), (''patch'', None)]\<rparr>"

definition initial_store :: store where
  "initial_store =
     \<lparr>selectedPart = PART_KEYS ! 0, parts = default_parts, embroidery = default_embroidery\<rparr>"

text \<open>
  Each action calls zustand's \<^verbatim>\<open>set\<close>, which merges the returned partial state into the
  current one: a record update.
\<close>

definition setPartColor :: "string \<Rightarrow> string \<Rightarrow> store \<Rightarrow> store" where
  "setPartColor part color s =
     s\<lparr>parts :=
         set_prop part (set_prop ''color'' color (spread (get_prop (parts s) part))) (parts s)\<rparr>"

definition setPartMaterial :: "string \<Rightarrow> string \<Rightarrow> store \<Rightarrow> store" where
  "setPartMaterial part material s =
     s\<lparr>parts :=
         set_prop part (set_prop ''material'' material (spread (get_prop (parts s) part)))
           (parts s)\<rparr>"

definition selectPart :: "string \<Rightarrow> store \<Rightarrow> store" where
  "selectPart part s = s\<lparr>selectedPart := part\<rparr>"

definition resetDesign :: "store \<Rightarrow> store" where
  "resetDesign s = s\<lparr>parts := default_parts, embroidery := default_embroidery\<rparr>"

definition setEmbroideryTarget :: "string \<Rightarrow> payload option \<Rightarrow> store \<Rightarrow> store" where
  "setEmbroideryTarget targetKey p s =
     s\<lparr>embroidery :=
         (embroidery s)\<lparr>targets := set_prop targetKey p (targets (embroidery s))\<rparr>\<rparr>"

text \<open>
  The object returned by \<^verbatim>\<open>getDesignJSON\<close> has values of three kinds under its three
  keys. The action reads the store through \<^verbatim>\<open>get()\<close> and the clock through
  \<^verbatim>\<open>new Date().toISOString()\<close> (the argument \<open>now\<close>); it is returned with the store it
  leaves behind.
\<close>

datatype design_value =
  Parts_v "part_settings obj"
| Embroidery_v embroidery_state
| String_v string

type_synonym design_json = "design_value obj"

definition getDesignJSON :: "string \<Rightarrow> store \<Rightarrow> design_json \<times> store" where
  "getDesignJSON now s =
     ([(''parts'', Parts_v (parts s)),
       (''embroidery'', Embroidery_v (embroidery s)),
       (''createdAt'', String_v now)], s)"

section \<open>Save and load\<close>

text \<open>
  The browser state the buttons touch: the local storage and the alerts shown so far.
  \<^verbatim>\<open>JSON.stringify\<close> and \<^verbatim>\<open>JSON.parse\<close> are parameters; \<open>parse\<close> gives \<open>None\<close> where
  the engine throws a \<^verbatim>\<open>SyntaxError\<close>.
\<close>

record browser =
  localStorage :: "string \<Rightarrow> string option"
  alerts :: "string list"

definition alert :: "string \<Rightarrow> browser \<Rightarrow> browser" where
  "alert msg b = b\<lparr>alerts := alerts b @ [msg]\<rparr>"

datatype js_exception = SyntaxError | TypeError

text \<open>
  \<^verbatim>\<open>const loadDesignJSON = useStore(state=>state.loadDesignJSON)\<close>: the object given to
  \<^verbatim>\<open>create\<close> has the properties \<^verbatim>\<open>selectedPart\<close>, \<^verbatim>\<open>parts\<close>, \<^verbatim>\<open>embroidery\<close>,
  \<^verbatim>\<open>setPartColor\<close>, \<^verbatim>\<open>setPartMaterial\<close>, \<^verbatim>\<open>selectPart\<close>, \<^verbatim>\<open>resetDesign\<close>,
  \<^verbatim>\<open>setEmbroideryTarget\<close> and \<^verbatim>\<open>getDesignJSON\<close> and no property \<^verbatim>\<open>loadDesignJSON\<close>, so
  the selector yields \<^verbatim>\<open>undefined\<close>.
\<close>

definition loadDesignJSON :: "('j \<Rightarrow> store \<Rightarrow> store) option" where
  "loadDesignJSON = None"

definition saveToLocal ::
  "(design_json \<Rightarrow> string) \<Rightarrow> string \<Rightarrow> store \<times> browser \<Rightarrow> store \<times> browser" where
  "saveToLocal stringify now sb =
     (case getDesignJSON now (fst sb) of (json, s') \<Rightarrow>
        (s', alert ''Design saved locally.''
               ((snd sb)\<lparr>localStorage :=
                  (localStorage (snd sb))(''latestGloveDesign'' \<mapsto> stringify json)\<rparr>)))"

text \<open>
  \<^verbatim>\<open>loadDesignJSON(JSON.parse(raw))\<close> inside \<^verbatim>\<open>try\<close>: the argument is evaluated first
  (a \<^verbatim>\<open>SyntaxError\<close> on text that is not JSON), then calling a value that is not a
  function throws a \<^verbatim>\<open>TypeError\<close>.
\<close>

definition call_loadDesignJSON ::
  "(string \<Rightarrow> 'j option) \<Rightarrow> string \<Rightarrow> store \<Rightarrow> js_exception + store" where
  "call_loadDesignJSON parse raw s =
     (case parse raw of
        None \<Rightarrow> Inl SyntaxError
      | Some j \<Rightarrow>
          (case loadDesignJSON of
             None \<Rightarrow> Inl TypeError
           | Some f \<Rightarrow> Inr (f j s)))"

definition loadFromLocal ::
  "(string \<Rightarrow> 'j option) \<Rightarrow> store \<times> browser \<Rightarrow> store \<times> browser" where
  "loadFromLocal parse sb =
     (case localStorage (snd sb) ''latestGloveDesign'' of
        None \<Rightarrow> (fst sb, alert ''No saved design found'' (snd sb))
      | Some raw \<Rightarrow>
          if raw = [] then (fst sb, alert ''No saved design found'' (snd sb))
          else (case call_loadDesignJSON parse raw (fst sb) of
                  Inl e \<Rightarrow> (fst sb, alert ''Failed to parse'' (snd sb))
                | Inr s' \<Rightarrow> (s', snd sb)))"

section \<open>Utility: create canvas texture\<close>

text \<open>Arithmetic on numbers: \<open>NaN\<close> is contagious, also in \<^verbatim>\<open>Math.max\<close>.\<close>

fun js_add :: "jsnum \<Rightarrow> jsnum \<Rightarrow> jsnum" where
  "js_add (Num a) (Num b) = Num (a + b)"
| "js_add _ _ = NaN"

fun js_mul :: "jsnum \<Rightarrow> jsnum \<Rightarrow> jsnum" where
  "js_mul (Num a) (Num b) = Num (a * b)"
| "js_mul _ _ = NaN"

fun Math_ceil :: "jsnum \<Rightarrow> jsnum" where
  "Math_ceil (Num a) = Num (of_int \<lceil>a\<rceil>)"
| "Math_ceil NaN = NaN"

fun Math_max :: "jsnum \<Rightarrow> jsnum \<Rightarrow> jsnum" where
  "Math_max (Num a) (Num b) = Num (max a b)"
| "Math_max _ _ = NaN"

text \<open>
  \<^verbatim>\<open>parseInt(str, 10)\<close>: leading white space is skipped, a sign is read, then the longest
  run of decimal digits; \<open>NaN\<close> when there is no digit.
\<close>

definition is_space :: "char \<Rightarrow> bool" where
  "is_space c = (c \<in> set [CHR '' '', CHR 0x09, CHR 0x0A, CHR 0x0B, CHR 0x0C, CHR 0x0D])"

definition is_digit :: "char \<Rightarrow> bool" where
  "is_digit c = (c \<in> set ''0123456789'')"

definition digits_value :: "string \<Rightarrow> nat" where
  "digits_value ds = foldl (\<lambda>n c. 10 * n + (of_char c - 48)) 0 ds"

definition parseInt :: "string \<Rightarrow> jsnum" where
  "parseInt str =
     (let t = dropWhile is_space str;
          neg = (t \<noteq> [] \<and> hd t = CHR ''-'');
          u = (if t \<noteq> [] \<and> (hd t = CHR ''-'' \<or> hd t = CHR ''+'') then tl t else t);
          ds = takeWhile is_digit u
      in if ds = [] then NaN
         else Num (if neg then - real (digits_value ds) else real (digits_value ds)))"

text \<open>
  What the host decides: the width \<^verbatim>\<open>ctx.measureText(text).width\<close> of a text under the
  string assigned to \<^verbatim>\<open>ctx.font\<close>, and the text a number takes in a template literal.
\<close>

record host =
  measureText :: "string \<Rightarrow> string \<Rightarrow> real"
  numberToString :: "real \<Rightarrow> string"

text \<open>\<^verbatim>\<open>x || d\<close> on an optional string: \<open>d\<close> when \<open>x\<close> is \<^verbatim>\<open>undefined\<close> or empty.\<close>

definition or_str :: "string option \<Rightarrow> string \<Rightarrow> string" where
  "or_str x d = (case x of None \<Rightarrow> d | Some v \<Rightarrow> if v = [] then d else v)"

text \<open>\<^verbatim>\<open>x || d\<close> on an optional number: \<open>d\<close> when \<open>x\<close> is \<^verbatim>\<open>undefined\<close>, \<open>NaN\<close> or 0.\<close>

definition or_num :: "jsnum option \<Rightarrow> real \<Rightarrow> real" where
  "or_num x d =
     (case x of None \<Rightarrow> d | Some NaN \<Rightarrow> d | Some (Num v) \<Rightarrow> if v = 0 then d else v)"

text \<open>A default of a destructured parameter applies when the property is \<^verbatim>\<open>undefined\<close>.\<close>

definition dflt :: "'a option \<Rightarrow> 'a \<Rightarrow> 'a" where
  "dflt x d = (case x of None \<Rightarrow> d | Some v \<Rightarrow> v)"

record texture_args =
  arg_text :: "string option"
  arg_font :: "string option"
  arg_color :: "string option"
  arg_padding :: "real option"
  arg_scale :: "real option"

datatype texture_filter = LinearMipmapLinearFilter

text \<open>
  The texture and the canvas it wraps: the width and height assigned to the canvas, what
  is drawn on it, and the texture's flags.
\<close>

record texture =
  canvas_width :: jsnum
  canvas_height :: jsnum
  canvas_font :: string
  canvas_fillStyle :: string
  canvas_text :: string
  flipY :: bool
  tex_needsUpdate :: bool
  minFilter :: texture_filter
  generateMipmaps :: bool

definition createTextTexture :: "host \<Rightarrow> texture_args \<Rightarrow> texture" where
  "createTextTexture h a =
     (let text = dflt (arg_text a) [];
          font = dflt (arg_font a) ''48px Montserrat'';
          color = dflt (arg_color a) ''#ffffff'';
          padding = dflt (arg_padding a) 20;
          scale = dflt (arg_scale a) 2;
          measure_width = measureText h font (or_str (Some text) []);
          width = Math_max (Num 256)
                    (Math_ceil (js_mul (js_add (Num measure_width) (Num (padding * 2))) (Num scale)));
          height = Math_max (Num 128)
                    (Math_ceil (js_mul (js_add (parseInt font) (Num (padding * 2))) (Num scale)))
      in \<lparr>canvas_width = width, canvas_height = height, canvas_font = font,
          canvas_fillStyle = color, canvas_text = text, flipY = False,
          tex_needsUpdate = True, minFilter = LinearMipmapLinearFilter,
          generateMipmaps = True\<rparr>)"

section \<open>Procedural mock glove\<close>

record material =
  mat_color :: string
  roughness :: real
  metalness :: real
  mat_map :: "nat option"
  transparent :: bool
  alphaTest :: real
  needsUpdate :: bool

record mesh =
  mesh_material :: material

text \<open>
  The scene: \<open>refs sc k\<close> is \<^verbatim>\<open>refs[k].current\<close>, \<open>None\<close> when no mesh is mounted under
  the key (or there is no such ref). \<open>textures\<close> lists every \<^verbatim>\<open>CanvasTexture\<close>
  constructed so far; the \<open>mat_map\<close> of a material is an index into it. \<open>disposed\<close>
  lists the textures on which \<^verbatim>\<open>dispose()\<close> has been called.
\<close>

record scene =
  refs :: "string \<Rightarrow> mesh option"
  textures :: "texture list"
  disposed :: "nat list"

text \<open>
  Apply colors/materials. \<open>material_of\<close> is \<^verbatim>\<open>appliedParts[key]?.material\<close> and
  \<open>color_of\<close> is \<^verbatim>\<open>appliedParts[key]?.color\<close>. \<^verbatim>\<open>new THREE.Color\<close> keeps the color
  string; nothing in the \<^verbatim>\<open>try\<close> block throws on a mounted mesh. A key with no mounted
  mesh is skipped.
\<close>

definition material_of :: "part_settings obj \<Rightarrow> string \<Rightarrow> string option" where
  "material_of appliedParts key =
     Option.bind (get_prop appliedParts key) (\<lambda>a. get_prop a ''material'')"

definition color_of :: "part_settings obj \<Rightarrow> string \<Rightarrow> string option" where
  "color_of appliedParts key =
     Option.bind (get_prop appliedParts key) (\<lambda>a. get_prop a ''color'')"

definition applyPartToMesh :: "part_settings obj \<Rightarrow> string \<Rightarrow> mesh \<Rightarrow> mesh" where
  "applyPartToMesh appliedParts key ref =
     (let mat = (mesh_material ref)\<lparr>mat_color := or_str (color_of appliedParts key) ''#ffffff''\<rparr>
      in ref\<lparr>mesh_material :=
               (if material_of appliedParts key = Some ''suede''
                  then mat\<lparr>roughness := 0.9, metalness := 0.0\<rparr>
                else if material_of appliedParts key = Some ''full_grain''
                  then mat\<lparr>roughness := 0.5, metalness := 0.0\<rparr>
                else mat\<lparr>roughness := 0.6, metalness := 0.05\<rparr>)\<rparr>)"

definition applyPart :: "part_settings obj \<Rightarrow> scene \<Rightarrow> string \<Rightarrow> scene" where
  "applyPart appliedParts sc key =
     (case refs sc key of
        None \<Rightarrow> sc
      | Some ref \<Rightarrow> sc\<lparr>refs := (refs sc)(key \<mapsto> applyPartToMesh appliedParts key ref)\<rparr>)"

definition regionBinder :: "part_settings obj \<Rightarrow> scene \<Rightarrow> scene" where
  "regionBinder appliedParts sc = foldl (applyPart appliedParts) sc PART_KEYS"

text \<open>Apply embroidery textures to wriststrap/patch.\<close>

definition map_obj :: "string obj" where
  "map_obj = [(''wriststrap'', ''glove_wriststrap''), (''patch'', ''glove_logo_patch''),
              (''thumb'', ''glove_backhand'')]"

text \<open>
  The font handed to \<^verbatim>\<open>createTextTexture\<close>:
  \<^verbatim>\<open>`${Math.max(24, settings.size||48)}px ${settings.font||'Montserrat'}`\<close>.
\<close>

definition font_px :: "payload \<Rightarrow> real" where
  "font_px settings = max 24 (or_num (emb_size settings) 48)"

definition embroideryFont :: "host \<Rightarrow> payload \<Rightarrow> string" where
  "embroideryFont h settings =
     numberToString h (font_px settings) @ ''px '' @ or_str (emb_font settings) ''Montserrat''"

definition embroideryTexture :: "host \<Rightarrow> payload \<Rightarrow> texture" where
  "embroideryTexture h settings =
     createTextTexture h
       \<lparr>arg_text = Some (or_str (emb_text settings) []),
        arg_font = Some (embroideryFont h settings),
        arg_color = Some (or_str (emb_color settings) ''#fff''),
        arg_padding = Some 20, arg_scale = Some 4\<rparr>"

text \<open>
  The two branches of the effect on a mounted mesh. Clear: \<^verbatim>\<open>ref.material.map = null;
  ref.material.needsUpdate = true\<close>. Set: the material is cloned, the clone gets the new
  texture, \<^verbatim>\<open>transparent\<close>, \<^verbatim>\<open>alphaTest\<close> and \<^verbatim>\<open>needsUpdate\<close>, and replaces the mesh's
  material. Each mounted mesh has a material of its own, so the material is kept by
  value. Neither branch calls \<^verbatim>\<open>dispose()\<close> on a texture or a material.
\<close>

definition clearMesh :: "mesh \<Rightarrow> mesh" where
  "clearMesh ref =
     ref\<lparr>mesh_material := (mesh_material ref)\<lparr>mat_map := None, needsUpdate := True\<rparr>\<rparr>"

definition textureMesh :: "nat \<Rightarrow> mesh \<Rightarrow> mesh" where
  "textureMesh tex ref =
     ref\<lparr>mesh_material :=
           (mesh_material ref)\<lparr>mat_map := Some tex, transparent := True, alphaTest := 0.5,
              needsUpdate := True\<rparr>\<rparr>"

definition applyTarget :: "host \<Rightarrow> scene \<Rightarrow> string \<times> payload option \<Rightarrow> scene" where
  "applyTarget h sc e =
     (case get_prop map_obj (fst e) of
        None \<Rightarrow> sc
      | Some meshKey \<Rightarrow>
          (case refs sc meshKey of
             None \<Rightarrow> sc
           | Some ref \<Rightarrow>
               (case snd e of
                  None \<Rightarrow> sc\<lparr>refs := (refs sc)(meshKey \<mapsto> clearMesh ref)\<rparr>
                | Some settings \<Rightarrow>
                    sc\<lparr>refs := (refs sc)(meshKey \<mapsto> textureMesh (length (textures sc)) ref),
                       textures := textures sc @ [embroideryTexture h settings]\<rparr>)))"

definition embroideryBinder :: "host \<Rightarrow> payload option obj \<Rightarrow> scene \<Rightarrow> scene" where
  "embroideryBinder h embroideryTargets sc = foldl (applyTarget h) sc embroideryTargets"

text \<open>
  A store action on an embroidery target followed by the pass of the embroidery effect
  that the changed \<^verbatim>\<open>embroideryTargets\<close> triggers.
\<close>

definition setEmbroideryTarget_effect ::
  "host \<Rightarrow> string \<Rightarrow> payload option \<Rightarrow> store \<times> scene \<Rightarrow> store \<times> scene" where
  "setEmbroideryTarget_effect h targetKey p st =
     (setEmbroideryTarget targetKey p (fst st),
      embroideryBinder h (targets (embroidery (setEmbroideryTarget targetKey p (fst st)))) (snd st))"

text \<open>The texture a mesh's material shows, if any.\<close>

definition bound_texture :: "scene \<Rightarrow> string \<Rightarrow> texture option" where
  "bound_texture sc k =
     (case refs sc k of
        None \<Rightarrow> None
      | Some ref \<Rightarrow>
          (case mat_map (mesh_material ref) of
             None \<Rightarrow> None
           | Some i \<Rightarrow> if i < length (textures sc) then Some (textures sc ! i) else None))"

text \<open>
  The meshes the component mounts, each with its own \<^verbatim>\<open>meshStandardMaterial\<close> (roughness 1
  and metalness 0 unless given, no map): palm, backhand, web, laces, wriststrap, logo
  patch and stitching. No mesh is mounted for \<^verbatim>\<open>glove_welting\<close> and \<^verbatim>\<open>glove_binding\<close>.
  The color of each is \<^verbatim>\<open>appliedParts[k].color\<close> (white, the material's default, when the
  part has no color); reading it throws when the part itself is missing, and then
  nothing is mounted.
\<close>

definition meshStandardMaterial :: "string \<Rightarrow> material" where
  "meshStandardMaterial c =
     \<lparr>mat_color = c, roughness = 1, metalness = 0, mat_map = None, transparent = False,
      alphaTest = 0, needsUpdate = False\<rparr>"

definition part_color :: "part_settings obj \<Rightarrow> string \<Rightarrow> string" where
  "part_color appliedParts k = dflt (color_of appliedParts k) ''#ffffff''"

definition mounted :: "part_settings obj \<Rightarrow> scene" where
  "mounted appliedParts =
     \<lparr>refs = map_of
        [(''glove_palm'',
            \<lparr>mesh_material = (meshStandardMaterial (part_color appliedParts ''glove_palm''))
               \<lparr>metalness := 0, roughness := 0.6\<rparr>\<rparr>),
         (''glove_backhand'',
            \<lparr>mesh_material = meshStandardMaterial (part_color appliedParts ''glove_backhand'')\<rparr>),
         (''glove_web'',
            \<lparr>mesh_material = meshStandardMaterial (part_color appliedParts ''glove_web'')\<rparr>),
         (''glove_laces'',
            \<lparr>mesh_material = meshStandardMaterial (part_color appliedParts ''glove_laces'')\<rparr>),
         (''glove_wriststrap'',
            \<lparr>mesh_material = meshStandardMaterial (part_color appliedParts ''glove_wriststrap'')\<rparr>),
         (''glove_logo_patch'',
            \<lparr>mesh_material = (meshStandardMaterial (part_color appliedParts ''glove_logo_patch''))
               \<lparr>transparent := True\<rparr>\<rparr>),
         (''glove_stitching'',
            \<lparr>mesh_material = meshStandardMaterial (part_color appliedParts ''glove_stitching'')\<rparr>)],
      textures = [], disposed = []\<rparr>"

definition ProceduralGlove :: "part_settings obj \<Rightarrow> scene option" where
  "ProceduralGlove appliedParts =
     (if list_all (\<lambda>k. get_prop appliedParts k \<noteq> None)
           [''glove_palm'', ''glove_backhand'', ''glove_web'', ''glove_laces'',
            ''glove_wriststrap'', ''glove_logo_patch'', ''glove_stitching'']
      then Some (mounted appliedParts) else None)"

text \<open>
  A host to run the binders on: every character is 10 pixels wide and an integral number
  prints as its decimal digits.
\<close>

function decimal :: "nat \<Rightarrow> string" where
  "decimal n =
     (if n < 10 then [''0123456789'' ! n] else decimal (n div 10) @ [''0123456789'' ! (n mod 10)])"
  by pat_completeness auto
termination
  by (relation "measure id") auto

declare decimal.simps [simp del]

definition example_host :: host where
  "example_host =
     \<lparr>measureText = (\<lambda>font text. 10 * real (length text)),
      numberToString = (\<lambda>x. decimal (nat \<lfloor>x\<rfloor>))\<rparr>"

text \<open>
  The scene when the component has mounted on the initial store and both effects have
  run once; the specs of the two scenarios, \<^verbatim>\<open>{text:"LUX", font:"Arial", size:40,
  color:"#fff"}\<close> and text \<^verbatim>\<open>"A"\<close> in Arial at size 48; and the scenario on the patch
  target: set the first spec, then clear.
\<close>

definition initial_scene :: scene where
  "initial_scene =
     (case ProceduralGlove (parts initial_store) of
        None \<Rightarrow> \<lparr>refs = (\<lambda>k. None), textures = [], disposed = []\<rparr>
      | Some sc \<Rightarrow>
          embroideryBinder example_host (targets (embroidery initial_store))
            (regionBinder (parts initial_store) sc))"

definition LUX :: payload where
  "LUX = \<lparr>emb_text = Some ''LUX'', emb_font = Some ''Arial'', emb_size = Some (Num 40),
          emb_color = Some ''#fff''\<rparr>"

definition A48 :: payload where
  "A48 = \<lparr>emb_text = Some ''A'', emb_font = Some ''Arial'', emb_size = Some (Num 48),
          emb_color = Some ''#ffffff''\<rparr>"

definition patch_set :: "store \<times> scene" where
  "patch_set =
     setEmbroideryTarget_effect example_host ''patch'' (Some LUX) (initial_store, initial_scene)"

definition patch_cleared :: "store \<times> scene" where
  "patch_cleared = setEmbroideryTarget_effect example_host ''patch'' None patch_set"

section \<open>Properties of objects\<close>

lemma map_of_set_prop: "map_of (set_prop k v ps) = (map_of ps)(k \<mapsto> v)"
  by (induction ps) auto

lemma get_prop_set_prop:
  "get_prop (set_prop k v ps) k' = (if k' = k then Some v else get_prop ps k')"
  by (simp add: get_prop_def map_of_set_prop)

lemma keys_set_prop: "set (Object_keys (set_prop k v ps)) = insert k (set (Object_keys ps))"
proof -
  have "set (Object_keys (set_prop k v ps)) = dom (map_of (set_prop k v ps))"
    by (simp add: Object_keys_def dom_map_of_conv_image_fst)
  also have "\<dots> = insert k (dom (map_of ps))"
    by (simp add: map_of_set_prop)
  also have "\<dots> = insert k (set (Object_keys ps))"
    by (simp add: Object_keys_def dom_map_of_conv_image_fst)
  finally show ?thesis .
qed

lemma distinct_set_prop:
  "distinct (Object_keys ps) \<Longrightarrow> distinct (Object_keys (set_prop k v ps))"
proof (induction ps)
  case Nil
  show ?case by (simp add: Object_keys_def)
next
  case (Cons p ps)
  obtain k' v' where p: "p = (k', v')" by (cases p)
  have ks: "set (map fst (set_prop k v ps)) = insert k (set (map fst ps))"
    using keys_set_prop [of k v ps] by (simp add: Object_keys_def)
  from Cons have d: "k' \<notin> set (map fst ps)" "distinct (map fst (set_prop k v ps))"
    by (simp_all add: p Object_keys_def)
  show ?case
  proof (cases "k' = k")
    case True
    with Cons show ?thesis by (simp add: p Object_keys_def)
  next
    case False
    with d ks show ?thesis by (simp add: p Object_keys_def)
  qed
qed

lemma default_parts_eq: "default_parts = map (\<lambda>k. (k, DEFAULT_PART_SETTINGS)) PART_KEYS"
  by (simp add: default_parts_def PART_KEYS_def spread_def)

section \<open>Reset\<close>

text \<open>
  C6. After \<^verbatim>\<open>resetDesign()\<close> every static region has the default appearance
  (material \<^verbatim>\<open>full_grain\<close>, color \<^verbatim>\<open>#b06b4a\<close>, pattern \<^verbatim>\<open>none\<close>), the regions mapping has
  no other key, every embroidery target (wriststrap, thumb, patch) is unset, and a
  second reset changes nothing.
\<close>

theorem resetDesign_default:
  "(\<forall>k \<in> set PART_KEYS. get_prop (parts (resetDesign s)) k = Some DEFAULT_PART_SETTINGS)
   \<and> set (Object_keys (parts (resetDesign s))) = set PART_KEYS
   \<and> get_prop DEFAULT_PART_SETTINGS ''material'' = Some ''full_grain''
   \<and> get_prop DEFAULT_PART_SETTINGS ''color'' = Some ''#b06b4a''
   \<and> get_prop DEFAULT_PART_SETTINGS ''pattern'' = Some ''none''
   \<and> targets (embroidery (resetDesign s)) =
       [(''wriststrap'', None), (''thumb'', None), (''patch'', None)]
   \<and> resetDesign (resetDesign s) = resetDesign s"
proof -
  have "get_prop (map (\<lambda>k. (k, DEFAULT_PART_SETTINGS)) PART_KEYS) k = Some DEFAULT_PART_SETTINGS"
    if "k \<in> set PART_KEYS" for k
    using that by (auto simp: get_prop_def map_of_map_restrict)
  then have "\<forall>k \<in> set PART_KEYS. get_prop (parts (resetDesign s)) k = Some DEFAULT_PART_SETTINGS"
    by (simp add: resetDesign_def default_parts_eq)
  moreover have "set (Object_keys (parts (resetDesign s))) = set PART_KEYS"
    by (simp add: resetDesign_def default_parts_eq Object_keys_def comp_def)
  moreover have "get_prop DEFAULT_PART_SETTINGS ''material'' = Some ''full_grain''"
    "get_prop DEFAULT_PART_SETTINGS ''color'' = Some ''#b06b4a''"
    "get_prop DEFAULT_PART_SETTINGS ''pattern'' = Some ''none''"
    by (simp_all add: get_prop_def DEFAULT_PART_SETTINGS_def)
  moreover have "targets (embroidery (resetDesign s)) =
       [(''wriststrap'', None), (''thumb'', None), (''patch'', None)]"
    by (simp add: resetDesign_def default_embroidery_def)
  moreover have "resetDesign (resetDesign s) = resetDesign s"
    by (simp add: resetDesign_def)
  ultimately show ?thesis by blast
qed

theorem resetDesign_default_witness:
  "get_prop (parts (resetDesign (setPartColor ''glove_palm'' ''#112233'' initial_store)))
     ''glove_palm'' = Some DEFAULT_PART_SETTINGS
   \<and> ''glove_palm'' \<in> set PART_KEYS"
proof -
  have m: "''glove_palm'' \<in> set PART_KEYS" by (simp add: PART_KEYS_def)
  from resetDesign_default [of "setPartColor ''glove_palm'' ''#112233'' initial_store"] m
  show ?thesis by blast
qed

section \<open>Setting a region's color\<close>

text \<open>
  C8. \<^verbatim>\<open>setPartColor(r, c)\<close> replaces only the color of region \<open>r\<close>: afterwards the
  appearance of \<open>r\<close> is its former appearance with \<^verbatim>\<open>color\<close> set to \<open>c\<close>, so every other
  attribute of \<open>r\<close> (material, pattern) reads as before; every other region reads as
  before; the key set gains at most \<open>r\<close>; the embroidery targets and the selection are
  unchanged. Starting from the default model, \<^verbatim>\<open>setPartColor("glove_palm", "#112233")\<close>
  followed by \<^verbatim>\<open>getDesignJSON()\<close> gives a tree whose parts hold
  \<^verbatim>\<open>glove_palm = {material: full_grain, color: #112233, pattern: none}\<close> and the default
  appearance for every other static region.
\<close>

theorem setPartColor_frame:
  "get_prop (parts (setPartColor r c s)) r
     = Some (set_prop ''color'' c (spread (get_prop (parts s) r)))
   \<and> get_prop (set_prop ''color'' c (spread (get_prop (parts s) r))) ''color'' = Some c
   \<and> (\<forall>f. f \<noteq> ''color'' \<longrightarrow>
         get_prop (set_prop ''color'' c (spread (get_prop (parts s) r))) f
           = get_prop (spread (get_prop (parts s) r)) f)
   \<and> (\<forall>k. k \<noteq> r \<longrightarrow> get_prop (parts (setPartColor r c s)) k = get_prop (parts s) k)
   \<and> set (Object_keys (parts (setPartColor r c s))) = insert r (set (Object_keys (parts s)))
   \<and> embroidery (setPartColor r c s) = embroidery s
   \<and> selectedPart (setPartColor r c s) = selectedPart s
   \<and> get_prop (fst (getDesignJSON now (setPartColor ''glove_palm'' ''#112233'' initial_store)))
        ''parts''
       = Some (Parts_v (parts (setPartColor ''glove_palm'' ''#112233'' initial_store)))
   \<and> get_prop (parts (setPartColor ''glove_palm'' ''#112233'' initial_store)) ''glove_palm''
       = Some [(''material'', ''full_grain''), (''color'', ''#112233''), (''pattern'', ''none'')]
   \<and> (\<forall>k \<in> set PART_KEYS. k \<noteq> ''glove_palm'' \<longrightarrow>
         get_prop (parts (setPartColor ''glove_palm'' ''#112233'' initial_store)) k
           = Some DEFAULT_PART_SETTINGS)"
proof -
  have a: "get_prop (parts (setPartColor r c s)) r
     = Some (set_prop ''color'' c (spread (get_prop (parts s) r)))"
    by (simp add: setPartColor_def get_prop_set_prop)
  have b: "get_prop (set_prop ''color'' c (spread (get_prop (parts s) r))) ''color'' = Some c"
    by (simp add: get_prop_set_prop)
  have c: "\<forall>f. f \<noteq> ''color'' \<longrightarrow>
         get_prop (set_prop ''color'' c (spread (get_prop (parts s) r))) f
           = get_prop (spread (get_prop (parts s) r)) f"
    by (simp add: get_prop_set_prop)
  have d: "\<forall>k. k \<noteq> r \<longrightarrow> get_prop (parts (setPartColor r c s)) k = get_prop (parts s) k"
    by (simp add: setPartColor_def get_prop_set_prop)
  have e: "set (Object_keys (parts (setPartColor r c s))) = insert r (set (Object_keys (parts s)))"
    by (simp add: setPartColor_def keys_set_prop)
  have f: "embroidery (setPartColor r c s) = embroidery s"
    "selectedPart (setPartColor r c s) = selectedPart s"
    by (simp_all add: setPartColor_def)
  have g: "get_prop (fst (getDesignJSON now (setPartColor ''glove_palm'' ''#112233'' initial_store)))
        ''parts''
       = Some (Parts_v (parts (setPartColor ''glove_palm'' ''#112233'' initial_store)))"
    by (simp add: getDesignJSON_def get_prop_def)
  have dflt: "get_prop (parts initial_store) k = Some DEFAULT_PART_SETTINGS"
    if "k \<in> set PART_KEYS" for k
    using that by (auto simp: initial_store_def default_parts_eq get_prop_def map_of_map_restrict)
  have palm: "''glove_palm'' \<in> set PART_KEYS" by (simp add: PART_KEYS_def)
  have h: "get_prop (parts (setPartColor ''glove_palm'' ''#112233'' initial_store)) ''glove_palm''
       = Some [(''material'', ''full_grain''), (''color'', ''#112233''), (''pattern'', ''none'')]"
    by (simp add: setPartColor_def get_prop_set_prop dflt [OF palm] spread_def
        DEFAULT_PART_SETTINGS_def)
  have i: "\<forall>k \<in> set PART_KEYS. k \<noteq> ''glove_palm'' \<longrightarrow>
         get_prop (parts (setPartColor ''glove_palm'' ''#112233'' initial_store)) k
           = Some DEFAULT_PART_SETTINGS"
    by (simp add: setPartColor_def get_prop_set_prop dflt)
  show ?thesis by (intro conjI a b c d e f g h i)
qed

theorem setPartColor_frame_witness:
  "''glove_web'' \<in> set PART_KEYS \<and> ''glove_web'' \<noteq> ''glove_palm''
   \<and> get_prop (parts (setPartColor ''glove_palm'' ''#112233'' initial_store)) ''glove_web''
     = Some DEFAULT_PART_SETTINGS
   \<and> get_prop (parts (setPartColor ''glove_palm'' ''#112233'' initial_store)) ''glove_web''
     = get_prop (parts initial_store) ''glove_web''
   \<and> get_prop (parts (setPartColor ''glove_palm'' ''#112233'' initial_store)) ''glove_palm''
     = Some [(''material'', ''full_grain''), (''color'', ''#112233''), (''pattern'', ''none'')]"
proof -
  note t = setPartColor_frame [of "''glove_palm''" "''#112233''" initial_store "''now''"]
  have m: "''glove_web'' \<in> set PART_KEYS" by (simp add: PART_KEYS_def)
  have n: "''glove_web'' \<noteq> ''glove_palm''" by simp
  from t have others: "\<forall>k \<in> set PART_KEYS. k \<noteq> ''glove_palm'' \<longrightarrow>
         get_prop (parts (setPartColor ''glove_palm'' ''#112233'' initial_store)) k
           = Some DEFAULT_PART_SETTINGS"
    by (elim conjE)
  from t have frame: "\<forall>k. k \<noteq> ''glove_palm'' \<longrightarrow>
      get_prop (parts (setPartColor ''glove_palm'' ''#112233'' initial_store)) k
        = get_prop (parts initial_store) k"
    by (elim conjE)
  from t have palm:
    "get_prop (parts (setPartColor ''glove_palm'' ''#112233'' initial_store)) ''glove_palm''
     = Some [(''material'', ''full_grain''), (''color'', ''#112233''), (''pattern'', ''none'')]"
    by (elim conjE)
  show ?thesis
    by (intro conjI m n others [rule_format, OF m n] frame [rule_format, OF n] palm)
qed

text \<open>
  C2, as stated, fails: \<^verbatim>\<open>glove_thumb\<close> is not a static region key, yet
  \<^verbatim>\<open>setPartColor("glove_thumb", "#000000")\<close> on the initial store neither fails nor
  leaves the model alone; the parts mapping gains the entry
  \<^verbatim>\<open>glove_thumb = {color: "#000000"}\<close>.
\<close>

theorem setPartColor_unknown_region_counterexample:
  "''glove_thumb'' \<notin> set PART_KEYS
   \<and> ''glove_thumb'' \<notin> set (Object_keys (parts initial_store))
   \<and> ''glove_thumb'' \<in> set (Object_keys (parts (setPartColor ''glove_thumb'' ''#000000'' initial_store)))
   \<and> get_prop (parts (setPartColor ''glove_thumb'' ''#000000'' initial_store)) ''glove_thumb''
       = Some [(''color'', ''#000000'')]
   \<and> setPartColor ''glove_thumb'' ''#000000'' initial_store \<noteq> initial_store"
proof -
  have a: "''glove_thumb'' \<notin> set PART_KEYS" by (simp add: PART_KEYS_def)
  have b: "''glove_thumb'' \<notin> set (Object_keys (parts initial_store))"
    using a by (simp add: initial_store_def default_parts_eq Object_keys_def comp_def)
  have c: "''glove_thumb'' \<in> set (Object_keys (parts (setPartColor ''glove_thumb'' ''#000000'' initial_store)))"
    by (simp add: setPartColor_def keys_set_prop)
  have n: "get_prop (parts initial_store) ''glove_thumb'' = None"
    using b by (simp add: get_prop_def Object_keys_def map_of_eq_None_iff)
  have d: "get_prop (parts (setPartColor ''glove_thumb'' ''#000000'' initial_store)) ''glove_thumb''
       = Some [(''color'', ''#000000'')]"
    by (simp add: setPartColor_def get_prop_set_prop n spread_def)
  have e: "setPartColor ''glove_thumb'' ''#000000'' initial_store \<noteq> initial_store"
  proof
    assume "setPartColor ''glove_thumb'' ''#000000'' initial_store = initial_store"
    with c have "''glove_thumb'' \<in> set (Object_keys (parts initial_store))" by simp
    with b show False by contradiction
  qed
  show ?thesis by (intro conjI a b c d e)
qed

text \<open>
  C2, amended. For a region argument \<open>r\<close> that is not a static region key,
  \<^verbatim>\<open>setPartColor(r, c)\<close> does not reject the call (the action has no error result):
  afterwards the parts mapping has an entry under \<open>r\<close> whose color is \<open>c\<close>. When \<open>r\<close>
  had no entry before, that is a new entry holding only the color, and the store has
  changed; when \<open>r\<close> had an entry, its color is replaced. In both cases the key set
  is the former one with \<open>r\<close> added, and every other entry, the embroidery targets and
  the selection are unchanged.
\<close>

theorem setPartColor_unknown_region:
  assumes "r \<notin> set PART_KEYS"
  shows "get_prop (parts (setPartColor r c s)) r
           = Some (set_prop ''color'' c (spread (get_prop (parts s) r)))
   \<and> get_prop (set_prop ''color'' c (spread (get_prop (parts s) r))) ''color'' = Some c
   \<and> (get_prop (parts s) r = None \<longrightarrow>
        get_prop (parts (setPartColor r c s)) r = Some [(''color'', c)])
   \<and> (get_prop (parts s) r = None \<longrightarrow>
        r \<notin> set (Object_keys (parts s)) \<and> setPartColor r c s \<noteq> s)
   \<and> set (Object_keys (parts (setPartColor r c s))) = insert r (set (Object_keys (parts s)))
   \<and> (\<forall>k. k \<noteq> r \<longrightarrow> get_prop (parts (setPartColor r c s)) k = get_prop (parts s) k)
   \<and> embroidery (setPartColor r c s) = embroidery s
   \<and> selectedPart (setPartColor r c s) = selectedPart s"
proof -
  have a: "get_prop (parts (setPartColor r c s)) r
           = Some (set_prop ''color'' c (spread (get_prop (parts s) r)))"
    by (simp add: setPartColor_def get_prop_set_prop)
  have b: "get_prop (set_prop ''color'' c (spread (get_prop (parts s) r))) ''color'' = Some c"
    by (simp add: get_prop_set_prop)
  have c: "get_prop (parts s) r = None \<longrightarrow>
        get_prop (parts (setPartColor r c s)) r = Some [(''color'', c)]"
    by (simp add: setPartColor_def get_prop_set_prop spread_def)
  have c': "get_prop (parts s) r = None \<longrightarrow>
        r \<notin> set (Object_keys (parts s)) \<and> setPartColor r c s \<noteq> s"
  proof
    assume n: "get_prop (parts s) r = None"
    have k: "r \<notin> set (Object_keys (parts s))"
      using n by (simp add: get_prop_def Object_keys_def map_of_eq_None_iff)
    have "setPartColor r c s \<noteq> s"
    proof
      assume "setPartColor r c s = s"
      then have "get_prop (parts (setPartColor r c s)) r = get_prop (parts s) r" by simp
      with a n show False by simp
    qed
    with k show "r \<notin> set (Object_keys (parts s)) \<and> setPartColor r c s \<noteq> s" by simp
  qed
  have d: "set (Object_keys (parts (setPartColor r c s))) = insert r (set (Object_keys (parts s)))"
    by (simp add: setPartColor_def keys_set_prop)
  have e: "\<forall>k. k \<noteq> r \<longrightarrow> get_prop (parts (setPartColor r c s)) k = get_prop (parts s) k"
    by (simp add: setPartColor_def get_prop_set_prop)
  have f: "embroidery (setPartColor r c s) = embroidery s"
    "selectedPart (setPartColor r c s) = selectedPart s"
    by (simp_all add: setPartColor_def)
  show ?thesis by (intro conjI a b c c' d e f)
qed

theorem setPartColor_unknown_region_witness:
  "''glove_thumb'' \<notin> set PART_KEYS
   \<and> get_prop (parts (resetDesign initial_store)) ''glove_thumb'' = None
   \<and> get_prop (parts (setPartColor ''glove_thumb'' ''#000000'' (resetDesign initial_store)))
        ''glove_thumb'' = Some [(''color'', ''#000000'')]
   \<and> setPartColor ''glove_thumb'' ''#000000'' (resetDesign initial_store)
        \<noteq> resetDesign initial_store
   \<and> get_prop (parts (setPartColor ''glove_thumb'' ''#000000'' (resetDesign initial_store)))
        ''glove_palm'' = get_prop (parts (resetDesign initial_store)) ''glove_palm''"
proof -
  have a: "''glove_thumb'' \<notin> set PART_KEYS" by (simp add: PART_KEYS_def)
  note t = setPartColor_unknown_region [OF a, of "''#000000''" "resetDesign initial_store"]
  have n: "get_prop (parts (resetDesign initial_store)) ''glove_thumb'' = None"
    using a by (auto simp: resetDesign_def default_parts_eq get_prop_def map_of_eq_None_iff)
  have ne: "''glove_palm'' \<noteq> ''glove_thumb''" by simp
  from t have new: "get_prop (parts (resetDesign initial_store)) ''glove_thumb'' = None \<longrightarrow>
     get_prop (parts (setPartColor ''glove_thumb'' ''#000000'' (resetDesign initial_store)))
        ''glove_thumb'' = Some [(''color'', ''#000000'')]"
    by (elim conjE)
  from t have chg: "get_prop (parts (resetDesign initial_store)) ''glove_thumb'' = None \<longrightarrow>
     ''glove_thumb'' \<notin> set (Object_keys (parts (resetDesign initial_store)))
     \<and> setPartColor ''glove_thumb'' ''#000000'' (resetDesign initial_store)
        \<noteq> resetDesign initial_store"
    by (elim conjE)
  from t have frame: "\<forall>k. k \<noteq> ''glove_thumb'' \<longrightarrow>
     get_prop (parts (setPartColor ''glove_thumb'' ''#000000'' (resetDesign initial_store))) k
       = get_prop (parts (resetDesign initial_store)) k"
    by (elim conjE)
  show ?thesis
    by (intro conjI a n new [rule_format, OF n] chg [rule_format, OF n, THEN conjunct2]
        frame [rule_format, OF ne])
qed

section \<open>Export\<close>

text \<open>
  C4, as stated, fails: the exported tree has no top-level key \<^verbatim>\<open>regions\<close>; the region
  appearances are exported under the key \<^verbatim>\<open>parts\<close>.
\<close>

theorem getDesignJSON_keys_counterexample:
  "set (Object_keys (fst (getDesignJSON ''2024-01-01T00:00:00.000Z'' initial_store)))
     \<noteq> {''regions'', ''embroidery'', ''createdAt''}
   \<and> get_prop (fst (getDesignJSON ''2024-01-01T00:00:00.000Z'' initial_store)) ''regions'' = None"
proof -
  have a: "''regions'' \<notin>
      set (Object_keys (fst (getDesignJSON ''2024-01-01T00:00:00.000Z'' initial_store)))"
    by (simp add: getDesignJSON_def Object_keys_def)
  have b: "set (Object_keys (fst (getDesignJSON ''2024-01-01T00:00:00.000Z'' initial_store)))
     \<noteq> {''regions'', ''embroidery'', ''createdAt''}"
  proof
    assume "set (Object_keys (fst (getDesignJSON ''2024-01-01T00:00:00.000Z'' initial_store)))
      = {''regions'', ''embroidery'', ''createdAt''}"
    then have "''regions'' \<in>
      set (Object_keys (fst (getDesignJSON ''2024-01-01T00:00:00.000Z'' initial_store)))"
      by simp
    with a show False by contradiction
  qed
  have c:
    "get_prop (fst (getDesignJSON ''2024-01-01T00:00:00.000Z'' initial_store)) ''regions'' = None"
    by (simp add: getDesignJSON_def get_prop_def)
  show ?thesis by (intro conjI b c)
qed

text \<open>
  C4, amended. \<^verbatim>\<open>getDesignJSON()\<close> returns a tree whose top-level keys are exactly
  \<^verbatim>\<open>parts\<close>, \<^verbatim>\<open>embroidery\<close> and \<^verbatim>\<open>createdAt\<close>, holding the store's parts, the store's
  embroidery and the current time, and the call leaves the store as it was.
\<close>

theorem getDesignJSON_shape:
  "Object_keys (fst (getDesignJSON now s)) = [''parts'', ''embroidery'', ''createdAt'']
   \<and> get_prop (fst (getDesignJSON now s)) ''parts'' = Some (Parts_v (parts s))
   \<and> get_prop (fst (getDesignJSON now s)) ''embroidery'' = Some (Embroidery_v (embroidery s))
   \<and> get_prop (fst (getDesignJSON now s)) ''createdAt'' = Some (String_v now)
   \<and> snd (getDesignJSON now s) = s"
  by (simp add: getDesignJSON_def Object_keys_def get_prop_def)

section \<open>Loading a saved design\<close>

lemma call_loadDesignJSON_fails: "\<exists>e. call_loadDesignJSON parse raw s = Inl e"
  by (simp add: call_loadDesignJSON_def loadDesignJSON_def split: option.split)

lemma loadFromLocal_store: "fst (loadFromLocal parse sb) = fst sb"
proof -
  obtain e where "call_loadDesignJSON parse (the (localStorage (snd sb) ''latestGloveDesign'')) (fst sb) = Inl e"
    using call_loadDesignJSON_fails by blast
  then show ?thesis
    by (auto simp: loadFromLocal_def split: option.split)
qed

text \<open>
  C1. The claim asks that a valid snapshot replaces the live model. The store has no
  \<^verbatim>\<open>loadDesignJSON\<close> action, so the call in \<^verbatim>\<open>loadFromLocal\<close> throws a \<^verbatim>\<open>TypeError\<close> for
  every stored text that parses, valid snapshot or not: the model is left as it was and
  the alert \<^verbatim>\<open>Failed to parse\<close> is shown.
\<close>

theorem loadFromLocal_stored_snapshot:
  assumes "localStorage b ''latestGloveDesign'' = Some raw" and "raw \<noteq> []"
    and "parse raw = Some snapshot"
  shows "call_loadDesignJSON parse raw s = Inl TypeError
    \<and> loadFromLocal parse (s, b) = (s, alert ''Failed to parse'' b)"
  using assms
  by (simp add: loadFromLocal_def call_loadDesignJSON_def loadDesignJSON_def)

theorem loadFromLocal_stored_snapshot_witness:
  "loadFromLocal (\<lambda>raw. Some (fst (getDesignJSON ''2024-01-01T00:00:00.000Z'' initial_store)))
     (setPartColor ''glove_palm'' ''#112233'' initial_store,
      \<lparr>localStorage = [''latestGloveDesign'' \<mapsto> ''{parts, embroidery, createdAt}''], alerts = []\<rparr>)
   = (setPartColor ''glove_palm'' ''#112233'' initial_store,
      \<lparr>localStorage = [''latestGloveDesign'' \<mapsto> ''{parts, embroidery, createdAt}''],
       alerts = [''Failed to parse'']\<rparr>)"
proof -
  have a: "localStorage \<lparr>localStorage = [''latestGloveDesign'' \<mapsto> ''{parts, embroidery, createdAt}''], alerts = []\<rparr>
      ''latestGloveDesign'' = Some ''{parts, embroidery, createdAt}''"
    by simp
  have b: "''{parts, embroidery, createdAt}'' \<noteq> []" by simp
  have c: "(\<lambda>raw. Some (fst (getDesignJSON ''2024-01-01T00:00:00.000Z'' initial_store)))
     ''{parts, embroidery, createdAt}''
     = Some (fst (getDesignJSON ''2024-01-01T00:00:00.000Z'' initial_store))"
    by simp
  from loadFromLocal_stored_snapshot [OF a b c, of "setPartColor ''glove_palm'' ''#112233'' initial_store"]
  show ?thesis by (simp add: alert_def)
qed

text \<open>
  C5. The claim asks that reading back what was written gives the model again. Saving a
  model \<open>m\<close> stores the text of its tree and leaves the store alone; loading afterwards,
  when the live model is \<open>m'\<close>, leaves \<open>m'\<close> in place, since the call of the missing
  \<^verbatim>\<open>loadDesignJSON\<close> throws whatever the text parses to. With \<open>m\<close> the initial model and
  \<open>m'\<close> the model after \<^verbatim>\<open>setPartColor("glove_palm", "#112233")\<close>, which differ, the
  saved model is not restored.
\<close>

theorem save_load_roundtrip:
  "fst (loadFromLocal parse (m', snd (saveToLocal stringify now (m, b)))) = m'
   \<and> fst (saveToLocal stringify now (m, b)) = m
   \<and> localStorage (snd (saveToLocal stringify now (m, b))) ''latestGloveDesign''
       = Some (stringify (fst (getDesignJSON now m)))
   \<and> (\<exists>e. call_loadDesignJSON parse (stringify (fst (getDesignJSON now m))) m' = Inl e)
   \<and> setPartColor ''glove_palm'' ''#112233'' initial_store \<noteq> initial_store"
proof -
  have a: "fst (loadFromLocal parse (m', snd (saveToLocal stringify now (m, b)))) = m'"
    using loadFromLocal_store [of parse "(m', snd (saveToLocal stringify now (m, b)))"] by simp
  have b: "fst (saveToLocal stringify now (m, b)) = m"
    by (simp add: saveToLocal_def getDesignJSON_def)
  have c: "localStorage (snd (saveToLocal stringify now (m, b))) ''latestGloveDesign''
       = Some (stringify (fst (getDesignJSON now m)))"
    by (simp add: saveToLocal_def getDesignJSON_def alert_def)
  have d: "\<exists>e. call_loadDesignJSON parse (stringify (fst (getDesignJSON now m))) m' = Inl e"
    by (rule call_loadDesignJSON_fails)
  have e1: "get_prop (parts (setPartColor ''glove_palm'' ''#112233'' initial_store)) ''glove_palm''
      = Some [(''material'', ''full_grain''), (''color'', ''#112233''), (''pattern'', ''none'')]"
    by (simp add: setPartColor_def get_prop_set_prop initial_store_def default_parts_eq
        PART_KEYS_def get_prop_def spread_def DEFAULT_PART_SETTINGS_def)
  have e2: "get_prop (parts initial_store) ''glove_palm''
      = Some [(''material'', ''full_grain''), (''color'', ''#b06b4a''), (''pattern'', ''none'')]"
    by (simp add: initial_store_def default_parts_eq
        PART_KEYS_def get_prop_def DEFAULT_PART_SETTINGS_def)
  have e: "setPartColor ''glove_palm'' ''#112233'' initial_store \<noteq> initial_store"
  proof
    assume "setPartColor ''glove_palm'' ''#112233'' initial_store = initial_store"
    with e1 e2 show False by simp
  qed
  show ?thesis by (intro conjI a b c d e)
qed

section \<open>Texture synthesis\<close>

lemma embroideryTexture_dims:
  "canvas_width (embroideryTexture h p)
     = Num (max 256 (of_int \<lceil>(measureText h (embroideryFont h p) (or_str (emb_text p) []) + 40) * 4\<rceil>))
   \<and> canvas_height (embroideryTexture h p)
     = Math_max (Num 128) (Math_ceil (js_mul (js_add (parseInt (embroideryFont h p)) (Num 40)) (Num 4)))
   \<and> canvas_font (embroideryTexture h p) = embroideryFont h p"
  by (simp add: embroideryTexture_def createTextTexture_def dflt_def or_str_def Let_def
      split: option.split)

lemma font_px_small: "0 < s \<Longrightarrow> s \<le> 24 \<Longrightarrow> font_px (p\<lparr>emb_size := Some (Num s)\<rparr>) = 24"
  by (simp add: font_px_def or_num_def)

lemma font_px_ge: "24 \<le> font_px p"
  by (simp add: font_px_def)

lemma embroideryFont_cong:
  "emb_font p1 = emb_font p2 \<Longrightarrow> emb_size p1 = emb_size p2 \<Longrightarrow>
   embroideryFont h p1 = embroideryFont h p2"
  by (simp add: embroideryFont_def font_px_def)

lemma font_px_cases:
  "((emb_size p = None \<or> emb_size p = Some NaN \<or> emb_size p = Some (Num 0)) \<longrightarrow> font_px p = 48)
   \<and> (\<forall>s. emb_size p = Some (Num s) \<and> s \<noteq> 0 \<and> s \<le> 24 \<longrightarrow> font_px p = 24)
   \<and> (\<forall>s. emb_size p = Some (Num s) \<and> 24 \<le> s \<longrightarrow> font_px p = s)"
  by (auto simp: font_px_def or_num_def)

section \<open>The effect applying colors and materials\<close>

lemma applyPart_frame:
  "textures (applyPart ap sc k) = textures sc \<and> disposed (applyPart ap sc k) = disposed sc"
  by (simp add: applyPart_def split: option.split)

lemma regionBinder_frame:
  "textures (foldl (applyPart ap) sc ks) = textures sc
   \<and> disposed (foldl (applyPart ap) sc ks) = disposed sc"
  by (induction ks arbitrary: sc) (simp_all add: applyPart_frame)

lemma applyPart_refs:
  "refs (applyPart ap sc key) k
     = (if k = key then map_option (applyPartToMesh ap key) (refs sc k) else refs sc k)"
  by (simp add: applyPart_def split: option.split)

lemma regionBinder_refs:
  "distinct ks \<Longrightarrow>
   refs (foldl (applyPart ap) sc ks) k
     = (if k \<in> set ks then map_option (applyPartToMesh ap k) (refs sc k) else refs sc k)"
  by (induction ks arbitrary: sc) (auto simp: applyPart_refs)

lemma distinct_PART_KEYS: "distinct PART_KEYS"
  by (simp add: PART_KEYS_def)

lemma applyPartToMesh_shading:
  "(material_of ap k = Some ''suede'' \<longrightarrow>
      roughness (mesh_material (applyPartToMesh ap k ref)) = 0.9
      \<and> metalness (mesh_material (applyPartToMesh ap k ref)) = 0)
   \<and> (material_of ap k = Some ''full_grain'' \<longrightarrow>
      roughness (mesh_material (applyPartToMesh ap k ref)) = 0.5
      \<and> metalness (mesh_material (applyPartToMesh ap k ref)) = 0)
   \<and> (material_of ap k = Some ''synthetic'' \<longrightarrow>
      roughness (mesh_material (applyPartToMesh ap k ref)) = 0.6
      \<and> metalness (mesh_material (applyPartToMesh ap k ref)) = 0.05)
   \<and> (material_of ap k \<noteq> Some ''suede'' \<and> material_of ap k \<noteq> Some ''full_grain'' \<longrightarrow>
      roughness (mesh_material (applyPartToMesh ap k ref)) = 0.6
      \<and> metalness (mesh_material (applyPartToMesh ap k ref)) = 0.05)"
  by (simp add: applyPartToMesh_def Let_def)

section \<open>The effect applying embroidery textures\<close>

lemma set_prop_mem: "(k, v) \<in> set (set_prop k v ps)"
  by (induction ps) auto

lemma set_prop_idem: "set_prop k v (set_prop k v ps) = set_prop k v ps"
  by (induction ps) auto

lemma map_obj_inj:
  "get_prop map_obj t = Some k \<Longrightarrow> get_prop map_obj t' = Some k \<Longrightarrow> t' = t"
  by (auto simp: get_prop_def map_obj_def split: if_splits)

lemma patch_mesh: "get_prop map_obj ''patch'' = Some ''glove_logo_patch''"
  by (simp add: get_prop_def map_obj_def)

lemma wriststrap_mesh: "get_prop map_obj ''wriststrap'' \<noteq> Some ''glove_logo_patch''"
  by (simp add: get_prop_def map_obj_def)

lemma thumb_mesh: "get_prop map_obj ''thumb'' \<noteq> Some ''glove_logo_patch''"
  by (simp add: get_prop_def map_obj_def)

lemma applyTarget_refs_other:
  "get_prop map_obj (fst e) \<noteq> Some k \<Longrightarrow> refs (applyTarget h sc e) k = refs sc k"
  by (auto simp: applyTarget_def split: option.split)

lemma applyTarget_textures: "\<exists>ts. textures (applyTarget h sc e) = textures sc @ ts"
  by (simp add: applyTarget_def split: option.split)

lemma applyTarget_disposed: "disposed (applyTarget h sc e) = disposed sc"
  by (simp add: applyTarget_def split: option.split)

lemma applyTarget_None_textures: "textures (applyTarget h sc (t, None)) = textures sc"
  by (simp add: applyTarget_def split: option.split)

lemma applyTarget_Some_textures:
  "get_prop map_obj t = Some k \<Longrightarrow> refs sc k = Some ref \<Longrightarrow>
   textures (applyTarget h sc (t, Some p)) = textures sc @ [embroideryTexture h p]"
  by (simp add: applyTarget_def)

lemma applyTarget_Some_refs:
  "get_prop map_obj t = Some k \<Longrightarrow> refs sc k = Some ref \<Longrightarrow>
   refs (applyTarget h sc (t, Some p)) k = Some (textureMesh (length (textures sc)) ref)"
  by (simp add: applyTarget_def)

lemma binder_refs_other:
  "\<forall>e \<in> set es. get_prop map_obj (fst e) \<noteq> Some k \<Longrightarrow>
   refs (foldl (applyTarget h) sc es) k = refs sc k"
  by (induction es arbitrary: sc) (simp_all add: applyTarget_refs_other)

lemma binder_textures: "\<exists>ts. textures (foldl (applyTarget h) sc es) = textures sc @ ts"
proof (induction es arbitrary: sc)
  case Nil
  show ?case by simp
next
  case (Cons e es)
  obtain ts1 where a: "textures (applyTarget h sc e) = textures sc @ ts1"
    using applyTarget_textures by blast
  obtain ts2 where b: "textures (foldl (applyTarget h) (applyTarget h sc e) es)
      = textures (applyTarget h sc e) @ ts2"
    using Cons.IH by blast
  from a b show ?case by simp
qed

lemma binder_disposed: "disposed (foldl (applyTarget h) sc es) = disposed sc"
  by (induction es arbitrary: sc) (simp_all add: applyTarget_disposed)

lemma rest_misses_mesh:
  assumes "distinct (map fst (e # es))" and "fst e = t" and "get_prop map_obj t = Some k"
  shows "\<forall>e' \<in> set es. get_prop map_obj (fst e') \<noteq> Some k"
proof
  fix e' assume m: "e' \<in> set es"
  then have a: "fst e' \<in> set (map fst es)" by simp
  from assms(1) have b: "fst e \<notin> set (map fst es)" by simp
  have "fst e' \<noteq> t"
  proof
    assume "fst e' = t"
    with a assms(2) have "fst e \<in> set (map fst es)" by simp
    with b show False by contradiction
  qed
  with assms(3) show "get_prop map_obj (fst e') \<noteq> Some k"
    using map_obj_inj by blast
qed

lemma binder_set_target:
  assumes "distinct (map fst es)" and "(t, Some p) \<in> set es"
    and "get_prop map_obj t = Some k" and "refs sc k = Some ref"
  shows "\<exists>i ref'. refs (foldl (applyTarget h) sc es) k = Some ref'
     \<and> mat_map (mesh_material ref') = Some i
     \<and> length (textures sc) \<le> i
     \<and> i < length (textures (foldl (applyTarget h) sc es))
     \<and> textures (foldl (applyTarget h) sc es) ! i = embroideryTexture h p"
  using assms
proof (induction es arbitrary: sc ref)
  case Nil
  then show ?case by simp
next
  case (Cons e es)
  let ?sc' = "applyTarget h sc e"
  show ?case
  proof (cases "e = (t, Some p)")
    case True
    have r: "refs ?sc' k = Some (textureMesh (length (textures sc)) ref)"
      and tx: "textures ?sc' = textures sc @ [embroideryTexture h p]"
      using Cons.prems(3,4) True by (simp_all add: applyTarget_def)
    have miss: "\<forall>e' \<in> set es. get_prop map_obj (fst e') \<noteq> Some k"
      using rest_misses_mesh [OF Cons.prems(1) _ Cons.prems(3)] True by simp
    have r': "refs (foldl (applyTarget h) ?sc' es) k = Some (textureMesh (length (textures sc)) ref)"
      using binder_refs_other [OF miss] r by simp
    obtain ts where ts: "textures (foldl (applyTarget h) ?sc' es) = textures ?sc' @ ts"
      using binder_textures by blast
    have "mat_map (mesh_material (textureMesh (length (textures sc)) ref)) = Some (length (textures sc))"
      by (simp add: textureMesh_def)
    moreover have "length (textures sc) < length (textures (foldl (applyTarget h) ?sc' es))"
      by (simp add: ts tx)
    moreover have "textures (foldl (applyTarget h) ?sc' es) ! length (textures sc) = embroideryTexture h p"
      by (simp add: ts tx nth_append)
    ultimately show ?thesis using r' by auto
  next
    case False
    with Cons.prems(2) have mem: "(t, Some p) \<in> set es" by simp
    then have "fst (t, Some p) \<in> set (map fst es)" by (simp only: set_map image_eqI)
    moreover from Cons.prems(1) have "fst e \<notin> set (map fst es)" by simp
    ultimately have "fst e \<noteq> t" by auto
    then have "get_prop map_obj (fst e) \<noteq> Some k"
      using Cons.prems(3) map_obj_inj by blast
    then have r: "refs ?sc' k = Some ref"
      using Cons.prems(4) by (simp add: applyTarget_refs_other)
    from Cons.prems(1) have d: "distinct (map fst es)" by simp
    obtain i ref' where i: "refs (foldl (applyTarget h) ?sc' es) k = Some ref'"
      "mat_map (mesh_material ref') = Some i" "length (textures ?sc') \<le> i"
      "i < length (textures (foldl (applyTarget h) ?sc' es))"
      "textures (foldl (applyTarget h) ?sc' es) ! i = embroideryTexture h p"
      using Cons.IH [OF d mem Cons.prems(3) r] by blast
    obtain ts where "textures ?sc' = textures sc @ ts"
      using applyTarget_textures by blast
    then have "length (textures sc) \<le> length (textures ?sc')" by simp
    with i show ?thesis by auto
  qed
qed

lemma binder_clear_target:
  assumes "distinct (map fst es)" and "(t, None) \<in> set es"
    and "get_prop map_obj t = Some k" and "refs sc k = Some ref"
  shows "refs (foldl (applyTarget h) sc es) k = Some (clearMesh ref)"
  using assms
proof (induction es arbitrary: sc)
  case Nil
  then show ?case by simp
next
  case (Cons e es)
  let ?sc' = "applyTarget h sc e"
  show ?case
  proof (cases "e = (t, None)")
    case True
    have r: "refs ?sc' k = Some (clearMesh ref)"
      using Cons.prems(3,4) True by (simp add: applyTarget_def)
    have miss: "\<forall>e' \<in> set es. get_prop map_obj (fst e') \<noteq> Some k"
      using rest_misses_mesh [OF Cons.prems(1) _ Cons.prems(3)] True by simp
    show ?thesis
      using binder_refs_other [OF miss] r by simp
  next
    case False
    with Cons.prems(2) have mem: "(t, None) \<in> set es" by simp
    then have "fst (t, None :: payload option) \<in> set (map fst es)" by (simp only: set_map image_eqI)
    moreover from Cons.prems(1) have "fst e \<notin> set (map fst es)" by simp
    ultimately have "fst e \<noteq> t" by auto
    then have "get_prop map_obj (fst e) \<noteq> Some k"
      using Cons.prems(3) map_obj_inj by blast
    then have r: "refs ?sc' k = Some ref"
      using Cons.prems(4) by (simp add: applyTarget_refs_other)
    from Cons.prems(1) have d: "distinct (map fst es)" by simp
    show ?thesis
      using Cons.IH [OF d mem Cons.prems(3) r] by simp
  qed
qed

lemma clearMesh_idem: "clearMesh (clearMesh ref) = clearMesh ref"
  by (simp add: clearMesh_def)

lemma effect_store:
  "fst (setEmbroideryTarget_effect h t p st) = setEmbroideryTarget t p (fst st)"
  by (simp add: setEmbroideryTarget_effect_def)

lemma effect_scene:
  "snd (setEmbroideryTarget_effect h t p st)
     = foldl (applyTarget h) (snd st) (set_prop t p (targets (embroidery (fst st))))"
  by (simp add: setEmbroideryTarget_effect_def embroideryBinder_def setEmbroideryTarget_def)

lemma effect_targets:
  "targets (embroidery (fst (setEmbroideryTarget_effect h t p st)))
     = set_prop t p (targets (embroidery (fst st)))"
  by (simp add: setEmbroideryTarget_effect_def setEmbroideryTarget_def)

lemma effect_distinct:
  "distinct (Object_keys (targets (embroidery (fst st)))) \<Longrightarrow>
   distinct (Object_keys (targets (embroidery (fst (setEmbroideryTarget_effect h t p st)))))"
  by (simp add: effect_targets distinct_set_prop)

lemma effect_set:
  assumes "distinct (Object_keys (targets (embroidery (fst st))))"
    and "get_prop map_obj t = Some k" and "refs (snd st) k = Some ref"
  shows "\<exists>i ref'. refs (snd (setEmbroideryTarget_effect h t (Some p) st)) k = Some ref'
     \<and> mat_map (mesh_material ref') = Some i
     \<and> length (textures (snd st)) \<le> i
     \<and> i < length (textures (snd (setEmbroideryTarget_effect h t (Some p) st)))
     \<and> textures (snd (setEmbroideryTarget_effect h t (Some p) st)) ! i = embroideryTexture h p"
proof -
  have d: "distinct (map fst (set_prop t (Some p) (targets (embroidery (fst st)))))"
    using distinct_set_prop [OF assms(1)] by (simp add: Object_keys_def)
  show ?thesis
    unfolding effect_scene
    by (rule binder_set_target [OF d set_prop_mem assms(2) assms(3)])
qed

lemma effect_clear:
  assumes "distinct (Object_keys (targets (embroidery (fst st))))"
    and "get_prop map_obj t = Some k" and "refs (snd st) k = Some ref"
  shows "refs (snd (setEmbroideryTarget_effect h t None st)) k = Some (clearMesh ref)"
proof -
  have d: "distinct (map fst (set_prop t None (targets (embroidery (fst st)))))"
    using distinct_set_prop [OF assms(1)] by (simp add: Object_keys_def)
  show ?thesis
    unfolding effect_scene
    by (rule binder_clear_target [OF d set_prop_mem assms(2) assms(3)])
qed

lemma effect_textures:
  "\<exists>ts. textures (snd (setEmbroideryTarget_effect h t p st)) = textures (snd st) @ ts"
  unfolding effect_scene by (rule binder_textures)

lemma effect_disposed:
  "disposed (snd (setEmbroideryTarget_effect h t p st)) = disposed (snd st)"
  unfolding effect_scene by (rule binder_disposed)

lemma bound_texture_eq:
  "refs sc k = Some ref \<Longrightarrow> mat_map (mesh_material ref) = Some i \<Longrightarrow> i < length (textures sc)
   \<Longrightarrow> bound_texture sc k = Some (textures sc ! i)"
  by (simp add: bound_texture_def)

lemma effect_set_bound:
  assumes "distinct (Object_keys (targets (embroidery (fst st))))"
    and "get_prop map_obj t = Some k" and "refs (snd st) k = Some ref"
  shows "bound_texture (snd (setEmbroideryTarget_effect h t (Some p) st)) k
           = Some (embroideryTexture h p)"
proof -
  obtain i ref' where "refs (snd (setEmbroideryTarget_effect h t (Some p) st)) k = Some ref'"
    "mat_map (mesh_material ref') = Some i"
    "i < length (textures (snd (setEmbroideryTarget_effect h t (Some p) st)))"
    "textures (snd (setEmbroideryTarget_effect h t (Some p) st)) ! i = embroideryTexture h p"
    using effect_set [OF assms, of h p] by auto
  then show ?thesis by (simp add: bound_texture_def)
qed

lemma effect_mounted:
  assumes "distinct (Object_keys (targets (embroidery (fst st))))"
    and "get_prop map_obj t = Some k" and "refs (snd st) k = Some ref"
  shows "refs (snd (setEmbroideryTarget_effect h t (Some p) st)) k \<noteq> None"
  using effect_set [OF assms, of h p] by auto

lemma initial_targets:
  "targets (embroidery initial_store) = [(''wriststrap'', None), (''thumb'', None), (''patch'', None)]"
  by (simp add: initial_store_def default_embroidery_def)

lemma initial_targets_distinct: "distinct (Object_keys (targets (embroidery initial_store)))"
  by (simp add: initial_targets Object_keys_def)

section \<open>The mounted scene\<close>

lemma mounted_frame: "textures (mounted ap) = [] \<and> disposed (mounted ap) = []"
  by (simp add: mounted_def)

lemma ProceduralGlove_initial:
  "ProceduralGlove (parts initial_store) = Some (mounted (parts initial_store))"
  by (simp add: ProceduralGlove_def initial_store_def default_parts_eq PART_KEYS_def get_prop_def)

lemma initial_scene_eq:
  "initial_scene =
     embroideryBinder example_host (targets (embroidery initial_store))
       (regionBinder (parts initial_store) (mounted (parts initial_store)))"
  by (simp add: initial_scene_def ProceduralGlove_initial)

lemma initial_scene_frame: "textures initial_scene = [] \<and> disposed initial_scene = []"
proof -
  have "disposed initial_scene = []"
    unfolding initial_scene_eq embroideryBinder_def regionBinder_def
    by (simp only: binder_disposed regionBinder_frame mounted_frame)
  moreover have "textures initial_scene = []"
    unfolding initial_scene_eq embroideryBinder_def regionBinder_def initial_targets
    by (simp only: foldl.simps applyTarget_None_textures regionBinder_frame mounted_frame)
  ultimately show ?thesis by simp
qed

lemma mounted_patch: "refs (mounted ap) ''glove_logo_patch'' \<noteq> None"
  by (simp add: mounted_def)

lemma initial_scene_patch: "refs initial_scene ''glove_logo_patch'' \<noteq> None"
proof -
  obtain m where m: "refs (mounted (parts initial_store)) ''glove_logo_patch'' = Some m"
    using mounted_patch [of "parts initial_store"]
    by (cases "refs (mounted (parts initial_store)) ''glove_logo_patch''") simp_all
  have pk: "''glove_logo_patch'' \<in> set PART_KEYS" by (simp add: PART_KEYS_def)
  have r: "refs (regionBinder (parts initial_store) (mounted (parts initial_store))) ''glove_logo_patch''
      = Some (applyPartToMesh (parts initial_store) ''glove_logo_patch'' m)"
    unfolding regionBinder_def
    by (simp add: regionBinder_refs [OF distinct_PART_KEYS] pk m)
  have d: "distinct (map fst (targets (embroidery initial_store)))"
    using initial_targets_distinct by (simp add: Object_keys_def)
  have mem: "(''patch'', None) \<in> set (targets (embroidery initial_store))"
    by (simp add: initial_targets)
  have "refs initial_scene ''glove_logo_patch''
      = Some (clearMesh (applyPartToMesh (parts initial_store) ''glove_logo_patch'' m))"
    unfolding initial_scene_eq embroideryBinder_def
    by (rule binder_clear_target [OF d mem patch_mesh r])
  then show ?thesis by simp
qed

lemma initial_scene_palm: "refs initial_scene ''glove_palm'' \<noteq> None"
proof -
  have m: "refs (mounted (parts initial_store)) ''glove_palm'' \<noteq> None"
    by (simp add: mounted_def)
  have pk: "''glove_palm'' \<in> set PART_KEYS" by (simp add: PART_KEYS_def)
  have r: "refs (regionBinder (parts initial_store) (mounted (parts initial_store))) ''glove_palm''
      \<noteq> None"
    unfolding regionBinder_def
    using m by (simp add: regionBinder_refs [OF distinct_PART_KEYS] pk)
  have miss: "\<forall>e \<in> set (targets (embroidery initial_store)).
      get_prop map_obj (fst e) \<noteq> Some ''glove_palm''"
    by (simp add: initial_targets get_prop_def map_obj_def)
  show ?thesis
    unfolding initial_scene_eq embroideryBinder_def
    using r by (simp add: binder_refs_other [OF miss])
qed

section \<open>Shading by material\<close>

text \<open>
  C7. After a pass of the effect, the mesh of every static region \<open>k\<close> that has a mounted
  mesh carries roughness and metalness decided by the region's material alone:
  0.9 and 0 for \<^verbatim>\<open>suede\<close>, 0.5 and 0 for \<^verbatim>\<open>full_grain\<close>, 0.6 and 0.05 for \<^verbatim>\<open>synthetic\<close> and
  for any other or missing material.
\<close>

theorem material_shading:
  assumes "k \<in> set PART_KEYS" and "refs sc k = Some ref"
  shows "\<exists>ref'. refs (regionBinder ap sc) k = Some ref'
    \<and> (material_of ap k = Some ''suede'' \<longrightarrow>
          roughness (mesh_material ref') = 0.9 \<and> metalness (mesh_material ref') = 0)
    \<and> (material_of ap k = Some ''full_grain'' \<longrightarrow>
          roughness (mesh_material ref') = 0.5 \<and> metalness (mesh_material ref') = 0)
    \<and> (material_of ap k = Some ''synthetic'' \<longrightarrow>
          roughness (mesh_material ref') = 0.6 \<and> metalness (mesh_material ref') = 0.05)
    \<and> (material_of ap k \<noteq> Some ''suede'' \<and> material_of ap k \<noteq> Some ''full_grain'' \<longrightarrow>
          roughness (mesh_material ref') = 0.6 \<and> metalness (mesh_material ref') = 0.05)"
proof -
  have "refs (regionBinder ap sc) k = Some (applyPartToMesh ap k ref)"
    unfolding regionBinder_def
    using assms by (simp add: regionBinder_refs [OF distinct_PART_KEYS])
  with applyPartToMesh_shading [of ap k ref] show ?thesis by simp
qed

theorem material_shading_witness:
  "''glove_palm'' \<in> set PART_KEYS
   \<and> refs initial_scene ''glove_palm'' \<noteq> None
   \<and> material_of (parts (setPartMaterial ''glove_palm'' ''suede'' initial_store)) ''glove_palm''
       = Some ''suede''
   \<and> map_option (\<lambda>r. (roughness (mesh_material r), metalness (mesh_material r)))
        (refs (regionBinder (parts (setPartMaterial ''glove_palm'' ''suede'' initial_store))
                 initial_scene) ''glove_palm'')
       = Some (0.9, 0)"
proof -
  have pk: "''glove_palm'' \<in> set PART_KEYS" by (simp add: PART_KEYS_def)
  obtain ref where ref: "refs initial_scene ''glove_palm'' = Some ref"
    using initial_scene_palm by (cases "refs initial_scene ''glove_palm''") simp_all
  have m: "material_of (parts (setPartMaterial ''glove_palm'' ''suede'' initial_store)) ''glove_palm''
       = Some ''suede''"
    by (simp add: material_of_def setPartMaterial_def get_prop_set_prop)
  from material_shading [OF pk ref,
      of "parts (setPartMaterial ''glove_palm'' ''suede'' initial_store)"] m
  have "map_option (\<lambda>r. (roughness (mesh_material r), metalness (mesh_material r)))
        (refs (regionBinder (parts (setPartMaterial ''glove_palm'' ''suede'' initial_store))
                 initial_scene) ''glove_palm'')
       = Some (0.9, 0)"
    by auto
  with pk initial_scene_palm m show ?thesis by simp
qed

section \<open>Clearing an embroidery target\<close>

text \<open>
  C3, as stated, fails: on the mounted scene, after the patch target is set to the LUX
  spec and then cleared (the effect running after each action), the patch target is
  \<^verbatim>\<open>null\<close> and the patch mesh shows no texture, but the texture synthesized by the first
  call is still the only texture constructed and \<^verbatim>\<open>dispose()\<close> has been called on no
  texture.
\<close>

theorem clear_embroidery_target_counterexample:
  "get_prop (targets (embroidery (fst patch_cleared))) ''patch'' = Some None
   \<and> bound_texture (snd patch_set) ''glove_logo_patch'' = Some (embroideryTexture example_host LUX)
   \<and> bound_texture (snd patch_cleared) ''glove_logo_patch'' = None
   \<and> textures (snd patch_cleared) = [embroideryTexture example_host LUX]
   \<and> disposed (snd patch_cleared) = []"
proof -
  obtain ref where ref: "refs initial_scene ''glove_logo_patch'' = Some ref"
    using initial_scene_patch by (cases "refs initial_scene ''glove_logo_patch''") simp_all
  have t1: "targets (embroidery (fst patch_set))
      = [(''wriststrap'', None), (''thumb'', None), (''patch'', Some LUX)]"
    by (simp add: patch_set_def effect_targets initial_targets)
  have t2: "targets (embroidery (fst patch_cleared))
      = [(''wriststrap'', None), (''thumb'', None), (''patch'', None)]"
    by (simp add: patch_cleared_def effect_targets t1)
  have a: "get_prop (targets (embroidery (fst patch_cleared))) ''patch'' = Some None"
    by (simp add: t2 get_prop_def)
  have s1: "snd patch_set
      = applyTarget example_host
          (applyTarget example_host (applyTarget example_host initial_scene (''wriststrap'', None))
             (''thumb'', None))
          (''patch'', Some LUX)"
    unfolding patch_set_def effect_scene by (simp add: initial_targets)
  have q: "refs (applyTarget example_host
                   (applyTarget example_host initial_scene (''wriststrap'', None))
                   (''thumb'', None)) ''glove_logo_patch'' = Some ref"
    using wriststrap_mesh thumb_mesh ref by (simp add: applyTarget_refs_other)
  have tx1: "textures (snd patch_set) = [embroideryTexture example_host LUX]"
    unfolding s1
    by (simp add: applyTarget_Some_textures [OF patch_mesh q] applyTarget_None_textures
        initial_scene_frame)
  have r1: "refs (snd patch_set) ''glove_logo_patch'' = Some (textureMesh 0 ref)"
    unfolding s1
    by (simp add: applyTarget_Some_refs [OF patch_mesh q] applyTarget_None_textures
        initial_scene_frame)
  have b: "bound_texture (snd patch_set) ''glove_logo_patch'' = Some (embroideryTexture example_host LUX)"
    by (simp add: bound_texture_def r1 tx1 textureMesh_def)
  have d1: "distinct (Object_keys (targets (embroidery (fst patch_set))))"
    by (simp add: t1 Object_keys_def)
  have r2: "refs (snd patch_cleared) ''glove_logo_patch'' = Some (clearMesh (textureMesh 0 ref))"
    unfolding patch_cleared_def by (rule effect_clear [OF d1 patch_mesh r1])
  have c: "bound_texture (snd patch_cleared) ''glove_logo_patch'' = None"
    by (simp add: bound_texture_def r2 clearMesh_def)
  have d: "textures (snd patch_cleared) = [embroideryTexture example_host LUX]"
    unfolding patch_cleared_def effect_scene t1
    by (simp add: applyTarget_None_textures tx1)
  have e: "disposed (snd patch_cleared) = []"
    by (simp add: patch_cleared_def patch_set_def effect_disposed initial_scene_frame)
  show ?thesis by (intro conjI a b c d e)
qed

text \<open>
  C3, amended. Take a store whose target keys are distinct, a scene in which the patch
  mesh is mounted and only constructed textures have been disposed, and any spec \<open>p\<close>.
  After \<^verbatim>\<open>setEmbroideryTarget("patch", p)\<close> and \<^verbatim>\<open>setEmbroideryTarget("patch", null)\<close>, the
  effect running after each: the patch target is \<^verbatim>\<open>null\<close>; the patch mesh showed the
  texture synthesized from \<open>p\<close> after the first call and shows none after the second
  (its material's map is \<^verbatim>\<open>null\<close>); that texture is still among the constructed
  textures and has not been disposed, the set of disposed textures being what it was.
  Clearing again leaves the store and the patch mesh as they are.
\<close>

theorem clear_embroidery_target:
  fixes h :: host and s :: store and sc :: scene and p :: payload
  defines "st1 \<equiv> setEmbroideryTarget_effect h ''patch'' (Some p) (s, sc)"
  defines "st2 \<equiv> setEmbroideryTarget_effect h ''patch'' None st1"
  assumes dk: "distinct (Object_keys (targets (embroidery s)))"
    and mt: "refs sc ''glove_logo_patch'' = Some ref"
    and wf: "\<forall>j \<in> set (disposed sc). j < length (textures sc)"
  shows "get_prop (targets (embroidery (fst st2))) ''patch'' = Some None
    \<and> bound_texture (snd st1) ''glove_logo_patch'' = Some (embroideryTexture h p)
    \<and> bound_texture (snd st2) ''glove_logo_patch'' = None
    \<and> (\<exists>i ref1. refs (snd st1) ''glove_logo_patch'' = Some ref1
          \<and> mat_map (mesh_material ref1) = Some i
          \<and> refs (snd st2) ''glove_logo_patch'' = Some (clearMesh ref1)
          \<and> i < length (textures (snd st2))
          \<and> textures (snd st2) ! i = embroideryTexture h p
          \<and> i \<notin> set (disposed (snd st2)))
    \<and> disposed (snd st2) = disposed sc
    \<and> fst (setEmbroideryTarget_effect h ''patch'' None st2) = fst st2
    \<and> refs (snd (setEmbroideryTarget_effect h ''patch'' None st2)) ''glove_logo_patch''
        = refs (snd st2) ''glove_logo_patch''"
proof -
  have d0: "distinct (Object_keys (targets (embroidery (fst (s, sc)))))" using dk by simp
  have m0: "refs (snd (s, sc)) ''glove_logo_patch'' = Some ref" using mt by simp
  obtain i ref1 where r1: "refs (snd st1) ''glove_logo_patch'' = Some ref1"
    and mp: "mat_map (mesh_material ref1) = Some i"
    and lo: "length (textures sc) \<le> i"
    and hi: "i < length (textures (snd st1))"
    and tx: "textures (snd st1) ! i = embroideryTexture h p"
    using effect_set [OF d0 patch_mesh m0, of h p] unfolding st1_def by auto
  have d1: "distinct (Object_keys (targets (embroidery (fst st1))))"
    unfolding st1_def by (rule effect_distinct [OF d0])
  have r2: "refs (snd st2) ''glove_logo_patch'' = Some (clearMesh ref1)"
    unfolding st2_def by (rule effect_clear [OF d1 patch_mesh r1])
  obtain ts where ts: "textures (snd st2) = textures (snd st1) @ ts"
    unfolding st2_def using effect_textures by blast
  have hi2: "i < length (textures (snd st2))" using hi ts by simp
  have tx2: "textures (snd st2) ! i = embroideryTexture h p"
    using hi tx ts by (simp add: nth_append)
  have dsp: "disposed (snd st2) = disposed sc"
    unfolding st2_def st1_def by (simp add: effect_disposed)
  have nd: "i \<notin> set (disposed (snd st2))"
  proof
    assume "i \<in> set (disposed (snd st2))"
    with dsp wf have "i < length (textures sc)" by simp
    with lo show False by simp
  qed
  have a: "get_prop (targets (embroidery (fst st2))) ''patch'' = Some None"
    unfolding st2_def by (simp add: effect_targets get_prop_set_prop)
  have b: "bound_texture (snd st1) ''glove_logo_patch'' = Some (embroideryTexture h p)"
    using bound_texture_eq [OF r1 mp hi] tx by simp
  have c: "bound_texture (snd st2) ''glove_logo_patch'' = None"
    using r2 by (simp add: bound_texture_def clearMesh_def)
  have e: "\<exists>i ref1. refs (snd st1) ''glove_logo_patch'' = Some ref1
          \<and> mat_map (mesh_material ref1) = Some i
          \<and> refs (snd st2) ''glove_logo_patch'' = Some (clearMesh ref1)
          \<and> i < length (textures (snd st2))
          \<and> textures (snd st2) ! i = embroideryTexture h p
          \<and> i \<notin> set (disposed (snd st2))"
    using r1 mp r2 hi2 tx2 nd by blast
  have d2: "distinct (Object_keys (targets (embroidery (fst st2))))"
    unfolding st2_def by (rule effect_distinct [OF d1])
  have f: "fst (setEmbroideryTarget_effect h ''patch'' None st2) = fst st2"
    unfolding st2_def
    by (simp add: effect_store setEmbroideryTarget_def set_prop_idem)
  have g: "refs (snd (setEmbroideryTarget_effect h ''patch'' None st2)) ''glove_logo_patch''
        = refs (snd st2) ''glove_logo_patch''"
    using effect_clear [OF d2 patch_mesh r2, of h] r2 by (simp add: clearMesh_idem)
  show ?thesis by (intro conjI a b c e dsp f g)
qed

theorem clear_embroidery_target_witness:
  "distinct (Object_keys (targets (embroidery initial_store)))
   \<and> refs initial_scene ''glove_logo_patch'' \<noteq> None
   \<and> disposed initial_scene = []
   \<and> get_prop (targets (embroidery (fst patch_cleared))) ''patch'' = Some None
   \<and> bound_texture (snd patch_set) ''glove_logo_patch'' = Some (embroideryTexture example_host LUX)
   \<and> bound_texture (snd patch_cleared) ''glove_logo_patch'' = None
   \<and> disposed (snd patch_cleared) = disposed initial_scene"
proof -
  obtain ref where ref: "refs initial_scene ''glove_logo_patch'' = Some ref"
    using initial_scene_patch by (cases "refs initial_scene ''glove_logo_patch''") simp_all
  have wf: "\<forall>j \<in> set (disposed initial_scene). j < length (textures initial_scene)"
    by (simp add: initial_scene_frame)
  note t = clear_embroidery_target [OF initial_targets_distinct ref wf, of example_host LUX,
      folded patch_set_def, folded patch_cleared_def]
  from t have a: "get_prop (targets (embroidery (fst patch_cleared))) ''patch'' = Some None"
    by (elim conjE)
  from t have b: "bound_texture (snd patch_set) ''glove_logo_patch''
      = Some (embroideryTexture example_host LUX)"
    by (elim conjE)
  from t have c: "bound_texture (snd patch_cleared) ''glove_logo_patch'' = None"
    by (elim conjE)
  from t have d: "disposed (snd patch_cleared) = disposed initial_scene"
    by (elim conjE)
  show ?thesis
    by (intro conjI initial_targets_distinct initial_scene_patch a b c d)
      (simp add: initial_scene_frame)
qed

section \<open>Dimensions of synthesized textures\<close>

text \<open>
  C9. Setting an embroidery target from any two states, with specs that agree on text,
  font and size (the colors may even differ), binds textures whose canvases have the
  same width and the same height: the width is
  \<^verbatim>\<open>max(256, ceil((measured width + 40) * 4))\<close> and the height
  \<^verbatim>\<open>max(128, ceil((parseInt(font) + 40) * 4))\<close>, functions of the text and the font string
  on a given host. The target's mesh is taken to be mounted and the target keys distinct.
\<close>

theorem texture_dimensions_deterministic:
  assumes "get_prop map_obj t = Some k"
    and "distinct (Object_keys (targets (embroidery (fst st1))))"
    and "distinct (Object_keys (targets (embroidery (fst st2))))"
    and "refs (snd st1) k = Some m1" and "refs (snd st2) k = Some m2"
    and "emb_text p1 = emb_text p2" and "emb_font p1 = emb_font p2"
    and "emb_size p1 = emb_size p2"
  shows "bound_texture (snd (setEmbroideryTarget_effect h t (Some p1) st1)) k
           = Some (embroideryTexture h p1)
    \<and> bound_texture (snd (setEmbroideryTarget_effect h t (Some p2) st2)) k
           = Some (embroideryTexture h p2)
    \<and> canvas_width (embroideryTexture h p1) = canvas_width (embroideryTexture h p2)
    \<and> canvas_height (embroideryTexture h p1) = canvas_height (embroideryTexture h p2)
    \<and> canvas_width (embroideryTexture h p1)
        = Num (max 256 (of_int \<lceil>(measureText h (embroideryFont h p1) (or_str (emb_text p1) []) + 40) * 4\<rceil>))
    \<and> canvas_height (embroideryTexture h p1)
        = Math_max (Num 128)
            (Math_ceil (js_mul (js_add (parseInt (embroideryFont h p1)) (Num 40)) (Num 4)))"
proof -
  have f: "embroideryFont h p1 = embroideryFont h p2"
    using assms(7,8) by (rule embroideryFont_cong)
  have a: "bound_texture (snd (setEmbroideryTarget_effect h t (Some p1) st1)) k
           = Some (embroideryTexture h p1)"
    by (rule effect_set_bound [OF assms(2) assms(1) assms(4)])
  have b: "bound_texture (snd (setEmbroideryTarget_effect h t (Some p2) st2)) k
           = Some (embroideryTexture h p2)"
    by (rule effect_set_bound [OF assms(3) assms(1) assms(5)])
  have c: "canvas_width (embroideryTexture h p1) = canvas_width (embroideryTexture h p2)"
    using f assms(6) by (simp add: embroideryTexture_dims)
  have d: "canvas_height (embroideryTexture h p1) = canvas_height (embroideryTexture h p2)"
    using f by (simp add: embroideryTexture_dims)
  have e: "canvas_width (embroideryTexture h p1)
        = Num (max 256 (of_int \<lceil>(measureText h (embroideryFont h p1) (or_str (emb_text p1) []) + 40) * 4\<rceil>))"
    by (simp add: embroideryTexture_dims)
  have g: "canvas_height (embroideryTexture h p1)
        = Math_max (Num 128)
            (Math_ceil (js_mul (js_add (parseInt (embroideryFont h p1)) (Num 40)) (Num 4)))"
    by (simp add: embroideryTexture_dims)
  show ?thesis by (intro conjI a b c d e g)
qed

lemma A48_font: "embroideryFont example_host A48 = ''48px Arial''"
  by (simp add: A48_def embroideryFont_def font_px_def or_num_def or_str_def example_host_def
      decimal.simps)

lemma parseInt_48px_Arial: "parseInt ''48px Arial'' = Num 48"
  by (simp add: parseInt_def is_space_def is_digit_def digits_value_def Let_def)

theorem texture_dimensions_deterministic_witness:
  "get_prop map_obj ''patch'' = Some ''glove_logo_patch''
   \<and> distinct (Object_keys (targets (embroidery initial_store)))
   \<and> refs initial_scene ''glove_logo_patch'' \<noteq> None
   \<and> bound_texture
        (snd (setEmbroideryTarget_effect example_host ''patch'' (Some A48)
           (initial_store, initial_scene))) ''glove_logo_patch''
       = Some (embroideryTexture example_host A48)
   \<and> bound_texture
        (snd (setEmbroideryTarget_effect example_host ''patch'' (Some A48)
           (setEmbroideryTarget_effect example_host ''patch'' (Some A48)
              (initial_store, initial_scene)))) ''glove_logo_patch''
       = Some (embroideryTexture example_host A48)
   \<and> canvas_width (embroideryTexture example_host A48) = Num 256
   \<and> canvas_height (embroideryTexture example_host A48) = Num 352"
proof -
  let ?st1 = "(initial_store, initial_scene)"
  let ?st2 = "setEmbroideryTarget_effect example_host ''patch'' (Some A48) ?st1"
  obtain m1 where m1: "refs (snd ?st1) ''glove_logo_patch'' = Some m1"
    using initial_scene_patch by (cases "refs initial_scene ''glove_logo_patch''") simp_all
  have d1: "distinct (Object_keys (targets (embroidery (fst ?st1))))"
    using initial_targets_distinct by simp
  have d2: "distinct (Object_keys (targets (embroidery (fst ?st2))))"
    by (rule effect_distinct [OF d1])
  obtain m2 where m2: "refs (snd ?st2) ''glove_logo_patch'' = Some m2"
    using effect_mounted [OF d1 patch_mesh m1, of example_host A48]
    by (cases "refs (snd ?st2) ''glove_logo_patch''") simp_all
  have e: "emb_text A48 = emb_text A48" "emb_font A48 = emb_font A48"
    "emb_size A48 = emb_size A48"
    by simp_all
  note t = texture_dimensions_deterministic [OF patch_mesh d1 d2 m1 m2 e,
      where h = example_host]
  from t have a: "bound_texture (snd (setEmbroideryTarget_effect example_host ''patch'' (Some A48) ?st1))
      ''glove_logo_patch'' = Some (embroideryTexture example_host A48)"
    by (elim conjE)
  from t have b: "bound_texture (snd (setEmbroideryTarget_effect example_host ''patch'' (Some A48) ?st2))
      ''glove_logo_patch'' = Some (embroideryTexture example_host A48)"
    by (elim conjE)
  from t have w: "canvas_width (embroideryTexture example_host A48)
        = Num (max 256 (of_int \<lceil>(measureText example_host (embroideryFont example_host A48)
            (or_str (emb_text A48) []) + 40) * 4\<rceil>))"
    by (elim conjE)
  from t have ht: "canvas_height (embroideryTexture example_host A48)
        = Math_max (Num 128)
            (Math_ceil (js_mul (js_add (parseInt (embroideryFont example_host A48)) (Num 40)) (Num 4)))"
    by (elim conjE)
  have w': "canvas_width (embroideryTexture example_host A48) = Num 256"
    unfolding w by (simp add: example_host_def A48_def or_str_def)
  have ht': "canvas_height (embroideryTexture example_host A48) = Num 352"
    unfolding ht A48_font parseInt_48px_Arial by simp
  show ?thesis
    by (intro conjI patch_mesh initial_targets_distinct initial_scene_patch a b w' ht')
qed

section \<open>The minimum font size\<close>

text \<open>
  C10. When an embroidery target with a mounted mesh is set to a spec \<open>p\<close>, the effect
  binds to the mesh the texture synthesized from \<open>p\<close>, rendered with the font string
  made of the pixel size \<open>font_px p\<close> and the font; its canvas height is computed from
  the number at the head of that string. The pixel size is never below 24: it is 48 when
  the size is absent, \<open>NaN\<close> or 0, it is 24 for every other size up to 24, and it is the
  size itself from 24 up. So two specs set on the same target, from any two states, that
  differ only in their sizes \<open>s1\<close> and \<open>s2\<close>, both above 0 and at most 24, are both
  rendered at 24 pixels and the bound textures have canvases of the same width and the
  same height. The target keys of the stores are taken to be distinct.
\<close>

theorem embroidery_min_font_size:
  assumes "get_prop map_obj t = Some k"
    and "distinct (Object_keys (targets (embroidery (fst st1))))"
    and "distinct (Object_keys (targets (embroidery (fst st2))))"
    and "refs (snd st1) k = Some m1" and "refs (snd st2) k = Some m2"
    and "0 < s1" and "s1 \<le> 24" and "0 < s2" and "s2 \<le> 24"
  shows "bound_texture (snd (setEmbroideryTarget_effect h t (Some p) st1)) k
           = Some (embroideryTexture h p)
    \<and> canvas_font (embroideryTexture h p)
        = numberToString h (font_px p) @ ''px '' @ or_str (emb_font p) ''Montserrat''
    \<and> canvas_height (embroideryTexture h p)
        = Math_max (Num 128)
            (Math_ceil (js_mul (js_add (parseInt (canvas_font (embroideryTexture h p))) (Num 40))
               (Num 4)))
    \<and> 24 \<le> font_px p
    \<and> ((emb_size p = None \<or> emb_size p = Some NaN \<or> emb_size p = Some (Num 0))
          \<longrightarrow> font_px p = 48)
    \<and> (\<forall>s. emb_size p = Some (Num s) \<and> s \<noteq> 0 \<and> s \<le> 24 \<longrightarrow> font_px p = 24)
    \<and> (\<forall>s. emb_size p = Some (Num s) \<and> 24 \<le> s \<longrightarrow> font_px p = s)
    \<and> bound_texture
         (snd (setEmbroideryTarget_effect h t (Some (p\<lparr>emb_size := Some (Num s1)\<rparr>)) st1)) k
        = Some (embroideryTexture h (p\<lparr>emb_size := Some (Num s1)\<rparr>))
    \<and> bound_texture
         (snd (setEmbroideryTarget_effect h t (Some (p\<lparr>emb_size := Some (Num s2)\<rparr>)) st2)) k
        = Some (embroideryTexture h (p\<lparr>emb_size := Some (Num s2)\<rparr>))
    \<and> canvas_font (embroideryTexture h (p\<lparr>emb_size := Some (Num s1)\<rparr>))
        = numberToString h 24 @ ''px '' @ or_str (emb_font p) ''Montserrat''
    \<and> canvas_font (embroideryTexture h (p\<lparr>emb_size := Some (Num s2)\<rparr>))
        = numberToString h 24 @ ''px '' @ or_str (emb_font p) ''Montserrat''
    \<and> canvas_width (embroideryTexture h (p\<lparr>emb_size := Some (Num s1)\<rparr>))
        = canvas_width (embroideryTexture h (p\<lparr>emb_size := Some (Num s2)\<rparr>))
    \<and> canvas_height (embroideryTexture h (p\<lparr>emb_size := Some (Num s1)\<rparr>))
        = canvas_height (embroideryTexture h (p\<lparr>emb_size := Some (Num s2)\<rparr>))"
proof -
  have b0: "bound_texture (snd (setEmbroideryTarget_effect h t (Some p) st1)) k
           = Some (embroideryTexture h p)"
    by (rule effect_set_bound [OF assms(2) assms(1) assms(4)])
  have b1: "bound_texture
         (snd (setEmbroideryTarget_effect h t (Some (p\<lparr>emb_size := Some (Num s1)\<rparr>)) st1)) k
        = Some (embroideryTexture h (p\<lparr>emb_size := Some (Num s1)\<rparr>))"
    by (rule effect_set_bound [OF assms(2) assms(1) assms(4)])
  have b2: "bound_texture
         (snd (setEmbroideryTarget_effect h t (Some (p\<lparr>emb_size := Some (Num s2)\<rparr>)) st2)) k
        = Some (embroideryTexture h (p\<lparr>emb_size := Some (Num s2)\<rparr>))"
    by (rule effect_set_bound [OF assms(3) assms(1) assms(5)])
  have d: "canvas_font (embroideryTexture h p)
       = numberToString h (font_px p) @ ''px '' @ or_str (emb_font p) ''Montserrat''"
    by (simp add: embroideryTexture_dims embroideryFont_def)
  have hgt: "canvas_height (embroideryTexture h p)
        = Math_max (Num 128)
            (Math_ceil (js_mul (js_add (parseInt (canvas_font (embroideryTexture h p))) (Num 40))
               (Num 4)))"
    by (simp add: embroideryTexture_dims)
  have a: "24 \<le> font_px p" by (rule font_px_ge)
  note cs = font_px_cases [of p]
  have f1: "canvas_font (embroideryTexture h (p\<lparr>emb_size := Some (Num s1)\<rparr>))
        = numberToString h 24 @ ''px '' @ or_str (emb_font p) ''Montserrat''"
    using assms(6,7) by (simp add: embroideryTexture_dims embroideryFont_def font_px_small)
  have f2: "canvas_font (embroideryTexture h (p\<lparr>emb_size := Some (Num s2)\<rparr>))
        = numberToString h 24 @ ''px '' @ or_str (emb_font p) ''Montserrat''"
    using assms(8,9) by (simp add: embroideryTexture_dims embroideryFont_def font_px_small)
  have f: "embroideryFont h (p\<lparr>emb_size := Some (Num s1)\<rparr>)
      = embroideryFont h (p\<lparr>emb_size := Some (Num s2)\<rparr>)"
    using assms(6-9) by (simp add: embroideryFont_def font_px_small)
  have w: "canvas_width (embroideryTexture h (p\<lparr>emb_size := Some (Num s1)\<rparr>))
       = canvas_width (embroideryTexture h (p\<lparr>emb_size := Some (Num s2)\<rparr>))"
    using f by (simp add: embroideryTexture_dims)
  have j: "canvas_height (embroideryTexture h (p\<lparr>emb_size := Some (Num s1)\<rparr>))
       = canvas_height (embroideryTexture h (p\<lparr>emb_size := Some (Num s2)\<rparr>))"
    using f by (simp add: embroideryTexture_dims)
  show ?thesis
    by (intro conjI b0 d hgt a cs [THEN conjunct1] cs [THEN conjunct2, THEN conjunct1]
        cs [THEN conjunct2, THEN conjunct2] b1 b2 f1 f2 w j)
qed

theorem embroidery_min_font_size_witness:
  "get_prop map_obj ''patch'' = Some ''glove_logo_patch''
   \<and> distinct (Object_keys (targets (embroidery initial_store)))
   \<and> distinct (Object_keys (targets (embroidery (fst patch_set))))
   \<and> refs initial_scene ''glove_logo_patch'' \<noteq> None
   \<and> refs (snd patch_set) ''glove_logo_patch'' \<noteq> None
   \<and> (0::real) < 12 \<and> (12::real) \<le> 24 \<and> (0::real) < 18 \<and> (18::real) \<le> 24
   \<and> map_option canvas_font
        (bound_texture
           (snd (setEmbroideryTarget_effect example_host ''patch''
              (Some \<lparr>emb_text = Some ''A'', emb_font = Some ''Arial'', emb_size = Some (Num 12),
                     emb_color = Some ''#fff''\<rparr>)
              (initial_store, initial_scene))) ''glove_logo_patch'')
       = Some ''24px Arial''
   \<and> map_option canvas_font
        (bound_texture
           (snd (setEmbroideryTarget_effect example_host ''patch''
              (Some \<lparr>emb_text = Some ''A'', emb_font = Some ''Arial'', emb_size = Some (Num 18),
                     emb_color = Some ''#fff''\<rparr>)
              patch_set)) ''glove_logo_patch'')
       = Some ''24px Arial''
   \<and> map_option (\<lambda>x. (canvas_width x, canvas_height x))
        (bound_texture
           (snd (setEmbroideryTarget_effect example_host ''patch''
              (Some \<lparr>emb_text = Some ''A'', emb_font = Some ''Arial'', emb_size = Some (Num 12),
                     emb_color = Some ''#fff''\<rparr>)
              (initial_store, initial_scene))) ''glove_logo_patch'')
       = Some (Num 256, Num 256)
   \<and> map_option (\<lambda>x. (canvas_width x, canvas_height x))
        (bound_texture
           (snd (setEmbroideryTarget_effect example_host ''patch''
              (Some \<lparr>emb_text = Some ''A'', emb_font = Some ''Arial'', emb_size = Some (Num 18),
                     emb_color = Some ''#fff''\<rparr>)
              patch_set)) ''glove_logo_patch'')
       = Some (Num 256, Num 256)"
proof -
  let ?p = "\<lparr>emb_text = Some ''A'', emb_font = Some ''Arial'', emb_size = None,
            emb_color = Some ''#fff''\<rparr>"
  let ?p12 = "\<lparr>emb_text = Some ''A'', emb_font = Some ''Arial'', emb_size = Some (Num 12),
            emb_color = Some ''#fff''\<rparr>"
  let ?p18 = "\<lparr>emb_text = Some ''A'', emb_font = Some ''Arial'', emb_size = Some (Num 18),
            emb_color = Some ''#fff''\<rparr>"
  let ?st1 = "(initial_store, initial_scene)"
  have h: "(0::real) < 12" "(12::real) \<le> 24" "(0::real) < 18" "(18::real) \<le> 24" by simp_all
  have u: "?p\<lparr>emb_size := Some (Num 12)\<rparr> = ?p12" "?p\<lparr>emb_size := Some (Num 18)\<rparr> = ?p18"
    by simp_all
  obtain m1 where m1: "refs (snd ?st1) ''glove_logo_patch'' = Some m1"
    using initial_scene_patch by (cases "refs initial_scene ''glove_logo_patch''") simp_all
  have d1: "distinct (Object_keys (targets (embroidery (fst ?st1))))"
    using initial_targets_distinct by simp
  have d2: "distinct (Object_keys (targets (embroidery (fst patch_set))))"
    unfolding patch_set_def by (rule effect_distinct [OF d1])
  have n2: "refs (snd patch_set) ''glove_logo_patch'' \<noteq> None"
    unfolding patch_set_def by (rule effect_mounted [OF d1 patch_mesh m1])
  then obtain m2 where m2: "refs (snd patch_set) ''glove_logo_patch'' = Some m2"
    by (cases "refs (snd patch_set) ''glove_logo_patch''") simp_all
  note t = embroidery_min_font_size [OF patch_mesh d1 d2 m1 m2 h,
      where h = example_host and p = ?p, unfolded u]
  from t have b1: "bound_texture (snd (setEmbroideryTarget_effect example_host ''patch''
      (Some ?p12) ?st1)) ''glove_logo_patch'' = Some (embroideryTexture example_host ?p12)"
    by (elim conjE)
  from t have b2: "bound_texture (snd (setEmbroideryTarget_effect example_host ''patch''
      (Some ?p18) patch_set)) ''glove_logo_patch'' = Some (embroideryTexture example_host ?p18)"
    by (elim conjE)
  from t have f1: "canvas_font (embroideryTexture example_host ?p12)
      = numberToString example_host 24 @ ''px '' @ or_str (emb_font ?p) ''Montserrat''"
    by (elim conjE)
  from t have f2: "canvas_font (embroideryTexture example_host ?p18)
      = numberToString example_host 24 @ ''px '' @ or_str (emb_font ?p) ''Montserrat''"
    by (elim conjE)
  from t have w: "canvas_width (embroideryTexture example_host ?p12)
      = canvas_width (embroideryTexture example_host ?p18)"
    by (elim conjE)
  from t have ht: "canvas_height (embroideryTexture example_host ?p12)
      = canvas_height (embroideryTexture example_host ?p18)"
    by (elim conjE)
  have n24: "numberToString example_host 24 @ ''px '' @ or_str (emb_font ?p) ''Montserrat''
      = ''24px Arial''"
    by (simp add: example_host_def decimal.simps or_str_def)
  have f12: "canvas_font (embroideryTexture example_host ?p12) = ''24px Arial''"
    using f1 n24 by simp
  have f18: "canvas_font (embroideryTexture example_host ?p18) = ''24px Arial''"
    using f2 n24 by simp
  have p24: "parseInt ''24px Arial'' = Num 24"
    by (simp add: parseInt_def is_space_def is_digit_def digits_value_def Let_def)
  have w12: "canvas_width (embroideryTexture example_host ?p12) = Num 256"
    using f12 by (simp add: embroideryTexture_dims example_host_def or_str_def)
  have h12: "canvas_height (embroideryTexture example_host ?p12) = Num 256"
    using f12 by (simp add: embroideryTexture_dims p24)
  have w18: "canvas_width (embroideryTexture example_host ?p18) = Num 256"
    using w w12 by simp
  have h18: "canvas_height (embroideryTexture example_host ?p18) = Num 256"
    using ht h12 by simp
  have c1: "map_option canvas_font (bound_texture (snd (setEmbroideryTarget_effect example_host
      ''patch'' (Some ?p12) ?st1)) ''glove_logo_patch'') = Some ''24px Arial''"
    by (simp add: b1 f12)
  have c2: "map_option canvas_font (bound_texture (snd (setEmbroideryTarget_effect example_host
      ''patch'' (Some ?p18) patch_set)) ''glove_logo_patch'') = Some ''24px Arial''"
    by (simp add: b2 f18)
  have e1: "map_option (\<lambda>x. (canvas_width x, canvas_height x))
      (bound_texture (snd (setEmbroideryTarget_effect example_host
      ''patch'' (Some ?p12) ?st1)) ''glove_logo_patch'') = Some (Num 256, Num 256)"
    by (simp add: b1 w12 h12)
  have e2: "map_option (\<lambda>x. (canvas_width x, canvas_height x))
      (bound_texture (snd (setEmbroideryTarget_effect example_host
      ''patch'' (Some ?p18) patch_set)) ''glove_logo_patch'') = Some (Num 256, Num 256)"
    by (simp add: b2 w18 h18)
  show ?thesis
    by (intro conjI patch_mesh initial_targets_distinct d2 initial_scene_patch n2 h c1 c2 e1 e2)
qed

end
